theory Spec2Isabelle
  imports Complex_Main
begin

section \<open>JavaScript values\<close>

subsection \<open>Numbers\<close>

text \<open>
  A JavaScript number is an IEEE 754 binary64 value. The finite ones are kept as the
  rationals they denote, \<open>Fin 0\<close> being the positive zero and \<open>NegZero\<close> the negative
  one. Division rounds its exact quotient to the nearest binary64 value, ties to the
  even significand, with the subnormal range below \<open>2\<^sup>-\<^sup>1\<^sup>0\<^sup>2\<^sup>2\<close> and overflow to
  infinity from \<open>2\<^sup>1\<^sup>0\<^sup>2\<^sup>4\<close>; a quotient that rounds to zero keeps its sign.
\<close>

datatype jsnum = Fin rat | NegZero | PInf | NInf | NaN

definition round_half_even :: "rat \<Rightarrow> int" where
  "round_half_even x =
     (let f = \<lfloor>x\<rfloor>; d = x - of_int f
      in if d < 1 / 2 then f else if 1 / 2 < d then f + 1 else if even f then f else f + 1)"

text \<open>\<open>ilog2 n\<close> is the position of the leading bit of \<open>n \<ge> 1\<close>.\<close>

function ilog2 :: "int \<Rightarrow> int" where
  "ilog2 n = (if n \<le> 1 then 0 else ilog2 (n div 2) + 1)"
  by pat_completeness auto
termination
  by (relation "measure nat") auto

declare ilog2.simps [simp del]

definition pow2 :: "int \<Rightarrow> rat" where
  "pow2 e = (if 0 \<le> e then 2 ^ nat e else 1 / 2 ^ nat (- e))"

text \<open>\<open>binade x\<close> is the exponent \<open>e\<close> with \<open>2\<^sup>e \<le> x < 2\<^sup>e\<^sup>+\<^sup>1\<close>, for \<open>x > 0\<close>.\<close>

definition binade :: "rat \<Rightarrow> int" where
  "binade x =
     (if 1 \<le> x then ilog2 \<lfloor>x\<rfloor>
      else let n = \<lceil>1 / x\<rceil> in if n \<le> 1 then 0 else - (ilog2 (n - 1) + 1))"

text \<open>The spacing of the binary64 values around \<open>a > 0\<close>: 53 significant bits.\<close>

definition quantum :: "rat \<Rightarrow> rat" where
  "quantum a = pow2 (max (binade a - 52) (- 1074))"

definition round_pos :: "rat \<Rightarrow> rat" where
  "round_pos a = of_int (round_half_even (a / quantum a)) * quantum a"

definition round_double :: "rat \<Rightarrow> jsnum" where
  "round_double x =
     (if x = 0 then Fin 0
      else if 0 < x then (let r = round_pos x in if pow2 1024 \<le> r then PInf else Fin r)
      else (let r = round_pos (- x)
            in if pow2 1024 \<le> r then NInf else if r = 0 then NegZero else Fin (- r)))"

text \<open>The operator \<^verbatim>\<open>/\<close> on numbers.\<close>

fun js_div :: "jsnum \<Rightarrow> jsnum \<Rightarrow> jsnum" where
  "js_div (Fin x) (Fin y) =
     (if y = 0 then (if x = 0 then NaN else if 0 < x then PInf else NInf)
      else if x = 0 then (if y < 0 then NegZero else Fin 0)
      else round_double (x / y))"
| "js_div (Fin x) NegZero = (if x = 0 then NaN else if 0 < x then NInf else PInf)"
| "js_div (Fin x) PInf = (if x < 0 then NegZero else Fin 0)"
| "js_div (Fin x) NInf = (if x < 0 then Fin 0 else NegZero)"
| "js_div NegZero (Fin y) = (if y = 0 then NaN else if y < 0 then Fin 0 else NegZero)"
| "js_div NegZero PInf = NegZero"
| "js_div NegZero NInf = Fin 0"
| "js_div PInf (Fin y) = (if y < 0 then NInf else PInf)"
| "js_div PInf NegZero = NInf"
| "js_div NInf (Fin y) = (if y < 0 then PInf else NInf)"
| "js_div NInf NegZero = PInf"
| "js_div _ _ = NaN"

text \<open>
  \<^verbatim>\<open>parseFloat\<close> of the text a template literal renders a number as: the number again,
  except that negative zero renders as \<^verbatim>\<open>0\<close>.
\<close>

definition attribute_number :: "jsnum \<Rightarrow> jsnum" where
  "attribute_number v = (if v = NegZero then Fin 0 else v)"

subsection \<open>Strings\<close>

text \<open>
  Strings are lists of characters with codes below 256, read as the code points
  U+0000 to U+00FF. \<^verbatim>\<open>String.prototype.trim\<close> strips white space and line
  terminators from both ends; in this range they are TAB, LF, VT, FF, CR, SP and NBSP.
\<close>

definition is_white_space :: "char \<Rightarrow> bool" where
  "is_white_space c = (of_char c \<in> {9, 10, 11, 12, 13, 32, 160 :: nat})"

definition trim :: "string \<Rightarrow> string" where
  "trim s = rev (dropWhile is_white_space (rev (dropWhile is_white_space s)))"

text \<open>The decimal text of an array index, as a template literal renders it.\<close>

definition digit :: "nat \<Rightarrow> char" where
  "digit d = ''0123456789'' ! d"

function show_nat :: "nat \<Rightarrow> string" where
  "show_nat n = (if n < 10 then [digit n] else show_nat (n div 10) @ [digit (n mod 10)])"
  by pat_completeness auto
termination
  by (relation "measure id") auto

declare show_nat.simps [simp del]

text \<open>
  A text written into markup, between tags, brings markup of its own exactly where a
  \<^verbatim>\<open><\<close> is followed by a letter, \<^verbatim>\<open>/\<close>, \<^verbatim>\<open>!\<close> or \<^verbatim>\<open>?\<close>: there the HTML tokenizer opens a tag
  or a comment, and everywhere else it reads character data. Written between the
  double quotes of an attribute, a text stays inside the attribute when it holds no
  double quote.
\<close>

definition is_letter :: "char \<Rightarrow> bool" where
  "is_letter c =
     (let n = of_char c :: nat in 65 \<le> n \<and> n \<le> 90 \<or> 97 \<le> n \<and> n \<le> 122)"

definition opens_tag :: "char \<Rightarrow> bool" where
  "opens_tag c = (is_letter c \<or> c \<in> set ''/!?'')"

fun tag_free :: "string \<Rightarrow> bool" where
  "tag_free (c # d # s) = (\<not> (c = CHR ''<'' \<and> opens_tag d) \<and> tag_free (d # s))"
| "tag_free s = True"

definition quote_free :: "string \<Rightarrow> bool" where
  "quote_free s = (CHR 0x22 \<notin> set s)"

subsection \<open>Values of a parsed JSON response\<close>

text \<open>
  \<open>JUndefined\<close> is what reading an absent property gives. An object is the list of its
  own properties, each key once.
\<close>

datatype jsval =
    JUndefined
  | JNull
  | JBool bool
  | JNumber jsnum
  | JString string
  | JArray "jsval list"
  | JObject "(string \<times> jsval) list"

datatype js_error = TypeError | SyntaxError | NetworkError

text \<open>
  \<^verbatim>\<open>v.k\<close> for the property names this program reads (\<^verbatim>\<open>success\<close>, \<^verbatim>\<open>error\<close>,
  \<^verbatim>\<open>weights\<close>, \<^verbatim>\<open>criteria\<close>, \<^verbatim>\<open>is_consistent\<close>, \<^verbatim>\<open>consistency_ratio\<close>): none of them is
  defined by a prototype, so only an object's own property can answer. Reading a
  property of \<^verbatim>\<open>null\<close> or \<^verbatim>\<open>undefined\<close> throws a TypeError.
\<close>

fun getProp :: "jsval \<Rightarrow> string \<Rightarrow> js_error + jsval" where
  "getProp JUndefined k = Inl TypeError"
| "getProp JNull k = Inl TypeError"
| "getProp (JObject kvs) k = Inr (case map_of kvs k of None \<Rightarrow> JUndefined | Some v \<Rightarrow> v)"
| "getProp _ k = Inr JUndefined"

text \<open>\<^verbatim>\<open>v[index]\<close> for a non-negative integer index.\<close>

fun getIndex :: "jsval \<Rightarrow> nat \<Rightarrow> js_error + jsval" where
  "getIndex JUndefined i = Inl TypeError"
| "getIndex JNull i = Inl TypeError"
| "getIndex (JArray xs) i = Inr (if i < length xs then xs ! i else JUndefined)"
| "getIndex (JObject kvs) i =
     Inr (case map_of kvs (show_nat i) of None \<Rightarrow> JUndefined | Some v \<Rightarrow> v)"
| "getIndex (JString s) i = Inr (if i < length s then JString [s ! i] else JUndefined)"
| "getIndex _ i = Inr JUndefined"

text \<open>
  Conversion to a primitive (for \<^verbatim>\<open>*\<close>, \<^verbatim>\<open>+\<close> and template literals) throws a TypeError
  exactly when it meets an object whose own \<^verbatim>\<open>toString\<close> property shadows the
  inherited method: a parsed JSON value is never callable. An array converts by joining
  the conversions of its elements.
\<close>

fun coercible :: "jsval \<Rightarrow> bool" where
  "coercible (JArray xs) = list_all coercible xs"
| "coercible (JObject kvs) = (map_of kvs ''toString'' = None)"
| "coercible _ = True"

text \<open>
  Whether the text a template literal renders a value as brings no markup. A string
  renders as itself. An array renders as the texts of its elements joined by commas,
  and here no \<^verbatim>\<open><\<close> at all is admitted in them; the text of any other value holds none.
\<close>

fun lt_free :: "jsval \<Rightarrow> bool" where
  "lt_free (JString s) = (CHR ''<'' \<notin> set s)"
| "lt_free (JArray xs) = list_all lt_free xs"
| "lt_free _ = True"

fun text_tag_free :: "jsval \<Rightarrow> bool" where
  "text_tag_free (JString s) = tag_free s"
| "text_tag_free (JArray xs) = list_all lt_free xs"
| "text_tag_free _ = True"

text \<open>Conversion to a boolean, as \<^verbatim>\<open>if\<close> and \<^verbatim>\<open>?:\<close> apply it.\<close>

fun truthy :: "jsval \<Rightarrow> bool" where
  "truthy JUndefined = False"
| "truthy JNull = False"
| "truthy (JBool b) = b"
| "truthy (JNumber n) = (n \<noteq> Fin 0 \<and> n \<noteq> NegZero \<and> n \<noteq> NaN)"
| "truthy (JString s) = (s \<noteq> [])"
| "truthy (JArray xs) = True"
| "truthy (JObject kvs) = True"


section \<open>The page\<close>

subsection \<open>Control flow\<close>

text \<open>\<^verbatim>\<open>for (let k = i; k < n; k++) body\<close>, on the variables \<open>s\<close> the body assigns.\<close>

function for_loop :: "nat \<Rightarrow> nat \<Rightarrow> (nat \<Rightarrow> 's \<Rightarrow> 's) \<Rightarrow> 's \<Rightarrow> 's" where
  "for_loop k n body s = (if k < n then for_loop (Suc k) n body (body k s) else s)"
  by pat_completeness auto
termination
  by (relation "measure (\<lambda>(k, n, body, s). n - k)") auto

declare for_loop.simps [simp del]

subsection \<open>Document, storage and globals\<close>

text \<open>
  An input element of the document, as the program can observe it: its type, its
  name, the number \<^verbatim>\<open>parseFloat\<close> reads from its \<^verbatim>\<open>value\<close>, and whether it is checked.
\<close>

record input_element =
  input_type :: string
  radio_name :: string
  radio_value :: jsnum
  checked :: bool

text \<open>
  The markup \<^verbatim>\<open>createRadio\<close> writes: the attributes of the input (the \<^verbatim>\<open>value\<close>
  attribute carries the text of the number, \<^verbatim>\<open>checked\<close> says whether the attribute is
  written), its id as the name and the number the id text is built from, and the
  label.
\<close>

record radio = input_element +
  radio_id :: "string \<times> jsnum"
  label_class :: string
  label_text :: string

text \<open>
  The markup of a comparison row: the two criteria names as they are written between
  the tags of the labels, unescaped, and the markup of the radio inputs.
\<close>

record comparison_row =
  compare_label_left :: string
  compare_label_right :: string
  radio_scale :: "radio list"

text \<open>
  A tag of the criteria list. In the markup it holds the name written into its span,
  unescaped; as the element a click on its Remove button hands to
  \<^verbatim>\<open>removeCriteria\<close> it holds the text content of its span.
\<close>

datatype criteria_tag = CriteriaTag string

text \<open>
  The parts of the results markup. A weight item keeps the criterion, whose text is
  written unescaped, and the weight read for it (shown times 100 with two decimals);
  the consistency box keeps its class, the ratio (shown with four decimals) and its
  message.
\<close>

datatype results_part =
    Heading string
  | WeightItem jsval jsval
  | Consistency string jsnum string
  | NextLink string

text \<open>The three markups the functions assign to an \<^verbatim>\<open>innerHTML\<close>.\<close>

datatype markup =
    TagsMarkup "criteria_tag list"
  | ComparisonsMarkup "comparison_row list"
  | ResultsMarkup "results_part list"

text \<open>
  What an element holds once the browser has parsed a markup into it, as far as the
  program and its users can observe: the input elements and the targets of the links,
  in document order.
\<close>

record fragment =
  fragment_inputs :: "input_element list"
  fragment_links :: "string list"

text \<open>
  The elements the functions address by id and assign markup to (taken to exist in
  the page, none inside another), and the document as the sequence of these elements
  and of the inputs the static page has between them.
\<close>

datatype element_id = CriteriaListElement | ContainerElement | ResultsElement

datatype segment = Inside element_id | Static "input_element list"

text \<open>What an alert shows: a literal, or a literal followed by the text of a value.\<close>

datatype alert_text =
    Alert string
  | AlertValue string jsval
  | AlertError string js_error

text \<open>The body posted to \<^verbatim>\<open>/calculate_ahp\<close>.\<close>

record ahp_request =
  req_criteria :: "string list"
  req_pairwise_matrix :: "jsnum list list"

text \<open>
  The globals \<^verbatim>\<open>criteria\<close> and \<^verbatim>\<open>weights\<close>; the markup last assigned to the three
  elements; the browser's parser of markup, which is not part of the program and is
  carried as a function; what the three elements hold, and the layout of the document;
  local storage, and the alerts shown and requests posted so far.
\<close>

record page =
  criteria :: "string list"
  weights :: jsval
  newCriteria :: string
  criteriaList :: "criteria_tag list"
  pairwiseComparisonsContainer :: "comparison_row list"
  pairwiseSection_display :: string
  results_innerHTML :: "results_part list"
  results_display :: string
  parse_fragment :: "markup \<Rightarrow> fragment"
  content :: "element_id \<Rightarrow> fragment"
  layout :: "segment list"
  localStorage :: "string \<rightharpoonup> jsval"
  alerts :: "alert_text list"
  posted :: "ahp_request list"

text \<open>The nine names both files initialise \<^verbatim>\<open>criteria\<close> with.\<close>

definition criteria_init :: "string list" where
  "criteria_init =
     [''Price'', ''Recommendations Total'', ''Release Year'', ''Min RAM'', ''CPU Min'',
      ''GPU Min'', ''Steam Rating Label'', ''Steam Chart Player 30d Avg'',
      ''Steam Chart Current Player'']"

text \<open>
  The elements a markup spells out itself: the inputs \<^verbatim>\<open>createRadio\<close> wrote, with the
  number \<^verbatim>\<open>parseFloat\<close> reads from the value text, and the Next link.
\<close>

definition written_input :: "radio \<Rightarrow> input_element" where
  "written_input r =
     \<lparr>input_type = input_type r, radio_name = radio_name r,
      radio_value = attribute_number (radio_value r), checked = checked r\<rparr>"

fun written_links :: "results_part \<Rightarrow> string list" where
  "written_links (NextLink href) = [href]"
| "written_links _ = []"

fun written :: "markup \<Rightarrow> fragment" where
  "written (TagsMarkup tags) = \<lparr>fragment_inputs = [], fragment_links = []\<rparr>"
| "written (ComparisonsMarkup rows) =
     \<lparr>fragment_inputs = map written_input (concat (map radio_scale rows)),
      fragment_links = []\<rparr>"
| "written (ResultsMarkup parts) =
     \<lparr>fragment_inputs = [], fragment_links = concat (map written_links parts)\<rparr>"

text \<open>
  A markup is plain when the texts interpolated into it bring no markup of their own
  and stay inside their attributes, when its inputs are of the type \<^verbatim>\<open>radio\<close> that
  \<^verbatim>\<open>createRadio\<close> writes, and when it checks at most one of them under a name (of
  several, a browser keeps the last one checked).
\<close>

definition plain_radio :: "radio \<Rightarrow> bool" where
  "plain_radio r =
     (input_type r = ''radio'' \<and> quote_free (radio_name r) \<and> quote_free (label_class r) \<and>
      tag_free (label_text r))"

definition plain_row :: "comparison_row \<Rightarrow> bool" where
  "plain_row row =
     (tag_free (compare_label_left row) \<and> tag_free (compare_label_right row) \<and>
      list_all plain_radio (radio_scale row))"

fun plain_part :: "results_part \<Rightarrow> bool" where
  "plain_part (Heading s) = tag_free s"
| "plain_part (WeightItem criterion w) = text_tag_free criterion"
| "plain_part (Consistency crClass ratio crMessage) = (quote_free crClass \<and> tag_free crMessage)"
| "plain_part (NextLink href) = quote_free href"

fun plain_tag :: "criteria_tag \<Rightarrow> bool" where
  "plain_tag (CriteriaTag s) = tag_free s"

fun plain_markup :: "markup \<Rightarrow> bool" where
  "plain_markup (TagsMarkup tags) = list_all plain_tag tags"
| "plain_markup (ComparisonsMarkup rows) =
     (list_all plain_row rows \<and>
      distinct (map radio_name
        (filter (\<lambda>r. checked r \<and> input_type r = ''radio'') (concat (map radio_scale rows)))))"
| "plain_markup (ResultsMarkup parts) = list_all plain_part parts"

text \<open>
  What is known of a browser's parser: it parses a plain markup to the elements the
  markup spells out. What it makes of markup inside an interpolated text depends on
  that text.
\<close>

definition conformant :: "page \<Rightarrow> bool" where
  "conformant p = (\<forall>m. plain_markup m \<longrightarrow> parse_fragment p m = written m)"

text \<open>
  The parser of the example page: a browser, as far as the examples below observe
  one. A text that is the markup of one checked checkbox of the name \<^verbatim>\<open>compare_0_9\<close> and
  the value 49, or of one link to \<^verbatim>\<open>/saw\<close>, it parses to that element, as a browser
  does, wherever the text is interpolated; the examples interpolate no other text
  that carries markup, and in any other text it sees no element. The theorems that
  speak of every page hold for every parser.
\<close>

definition checkbox_text :: string where
  "checkbox_text = ''<input type=checkbox name=compare_0_9 value=49 checked>''"

definition checkbox_element :: input_element where
  "checkbox_element =
     \<lparr>input_type = ''checkbox'', radio_name = ''compare_0_9'', radio_value = Fin 49,
      checked = True\<rparr>"

definition link_text :: string where
  "link_text = ''<a href=/saw class=next-btn>Next: SAW Ranking</a>''"

definition text_inputs :: "string \<Rightarrow> input_element list" where
  "text_inputs s = (if s = checkbox_text then [checkbox_element] else [])"

definition text_links :: "string \<Rightarrow> string list" where
  "text_links s = (if s = link_text then [''/saw''] else [])"

fun tag_text :: "criteria_tag \<Rightarrow> string" where
  "tag_text (CriteriaTag s) = s"

fun part_texts :: "results_part \<Rightarrow> string list" where
  "part_texts (Heading s) = [s]"
| "part_texts (WeightItem (JString s) w) = [s]"
| "part_texts (Consistency crClass ratio crMessage) = [crMessage]"
| "part_texts _ = []"

fun example_parser :: "markup \<Rightarrow> fragment" where
  "example_parser (TagsMarkup tags) =
     \<lparr>fragment_inputs = concat (map (text_inputs \<circ> tag_text) tags),
      fragment_links = concat (map (text_links \<circ> tag_text) tags)\<rparr>"
| "example_parser (ComparisonsMarkup rows) =
     \<lparr>fragment_inputs =
        concat (map (\<lambda>row. text_inputs (compare_label_left row) @
                           text_inputs (compare_label_right row) @
                           map written_input (radio_scale row)) rows),
      fragment_links =
        concat (map (\<lambda>row. text_links (compare_label_left row) @
                           text_links (compare_label_right row)) rows)\<rparr>"
| "example_parser (ResultsMarkup parts) =
     \<lparr>fragment_inputs = concat (map (\<lambda>part. concat (map text_inputs (part_texts part))) parts),
      fragment_links =
        concat (map (\<lambda>part. concat (map text_links (part_texts part)) @ written_links part)
          parts)\<rparr>"

text \<open>
  The page once the script has run, in the example browser: nothing rendered, nothing
  stored, the three elements one after the other.
\<close>

definition fresh_page :: page where
  "fresh_page =
     \<lparr>criteria = criteria_init, weights = JArray [], newCriteria = [],
      criteriaList = [], pairwiseComparisonsContainer = [],
      pairwiseSection_display = [], results_innerHTML = [], results_display = [],
      parse_fragment = example_parser,
      content = (\<lambda>e. \<lparr>fragment_inputs = [], fragment_links = []\<rparr>),
      layout = [Inside CriteriaListElement, Inside ContainerElement, Inside ResultsElement],
      localStorage = Map.empty, alerts = [], posted = []\<rparr>"

definition alert :: "alert_text \<Rightarrow> page \<Rightarrow> page" where
  "alert msg p = p\<lparr>alerts := alerts p @ [msg]\<rparr>"

text \<open>The input elements of the document, in document order.\<close>

fun segment_inputs :: "page \<Rightarrow> segment \<Rightarrow> input_element list" where
  "segment_inputs p (Inside e) = fragment_inputs (content p e)"
| "segment_inputs p (Static inputs) = inputs"

definition document_inputs :: "page \<Rightarrow> input_element list" where
  "document_inputs p = concat (map (segment_inputs p) (layout p))"

text \<open>Applying \<open>f\<close> to every input element of the document.\<close>

fun map_segment :: "(input_element \<Rightarrow> input_element) \<Rightarrow> segment \<Rightarrow> segment" where
  "map_segment f (Inside e) = Inside e"
| "map_segment f (Static inputs) = Static (map f inputs)"

definition map_inputs :: "(input_element \<Rightarrow> input_element) \<Rightarrow> page \<Rightarrow> page" where
  "map_inputs f p =
     p\<lparr>content := (\<lambda>e. (content p e)\<lparr>fragment_inputs := map f (fragment_inputs (content p e))\<rparr>),
       layout := map (map_segment f) (layout p)\<rparr>"

text \<open>
  \<^verbatim>\<open>element.innerHTML = markup\<close>: the browser parses the markup, and what it parses it to
  replaces what the element held. A checked radio input that comes into the document
  unchecks the radio inputs of its name that are there already (the inputs are taken
  to have no form owner).
\<close>

definition uncheck_group :: "string list \<Rightarrow> input_element \<Rightarrow> input_element" where
  "uncheck_group names r =
     (if input_type r = ''radio'' \<and> radio_name r \<in> set names then r\<lparr>checked := False\<rparr> else r)"

definition set_innerHTML :: "element_id \<Rightarrow> markup \<Rightarrow> page \<Rightarrow> page" where
  "set_innerHTML e m p =
     (let parsed = parse_fragment p m;
          names = map radio_name
            (filter (\<lambda>r. checked r \<and> input_type r = ''radio'') (fragment_inputs parsed));
          p = map_inputs (uncheck_group names) p
      in p\<lparr>content := (content p)(e := parsed)\<rparr>)"

text \<open>
  \<^verbatim>\<open>document.querySelector('input[name="..."]:checked')\<close>: the first checked input of
  that name in document order.
\<close>

definition querySelector_checked :: "page \<Rightarrow> string \<Rightarrow> input_element option" where
  "querySelector_checked p name =
     find (\<lambda>r. radio_name r = name \<and> checked r) (document_inputs p)"

text \<open>\<^verbatim>\<open>matrix[i][j] = v\<close> on an array of row arrays.\<close>

definition set_entry :: "'a list list \<Rightarrow> nat \<Rightarrow> nat \<Rightarrow> 'a \<Rightarrow> 'a list list" where
  "set_entry matrix i j v = matrix[i := (matrix ! i)[j := v]]"

subsection \<open>Completion of a function that can throw\<close>

datatype completion = Normal page | Thrown js_error page

text \<open>Evaluating an expression in state \<open>p\<close>: a throw leaves the function there.\<close>

definition try_eval :: "js_error + 'a \<Rightarrow> page \<Rightarrow> ('a \<Rightarrow> completion) \<Rightarrow> completion" where
  "try_eval r p k = (case r of Inl e \<Rightarrow> Thrown e p | Inr v \<Rightarrow> k v)"

text \<open>\<^verbatim>\<open>try { ... } catch (error) { ... }\<close>\<close>

definition try_catch :: "completion \<Rightarrow> (js_error \<Rightarrow> page \<Rightarrow> completion) \<Rightarrow> completion" where
  "try_catch body handler = (case body of Normal p \<Rightarrow> Normal p | Thrown e p \<Rightarrow> handler e p)"

text \<open>\<^verbatim>\<open>v.forEach\<close>: only an array has the method.\<close>

definition forEach_receiver :: "jsval \<Rightarrow> js_error + jsval list" where
  "forEach_receiver v = (case v of JArray xs \<Rightarrow> Inr xs | _ \<Rightarrow> Inl TypeError)"

text \<open>\<^verbatim>\<open>v.toFixed(d)\<close>: only a number has the method; the number is kept for its text.\<close>

definition toFixed :: "jsval \<Rightarrow> js_error + jsnum" where
  "toFixed v = (case v of JNumber x \<Rightarrow> Inr x | _ \<Rightarrow> Inl TypeError)"

text \<open>\<^verbatim>\<open>'literal' + v\<close>\<close>

definition plus_text :: "string \<Rightarrow> jsval \<Rightarrow> js_error + alert_text" where
  "plus_text s v = (if coercible v then Inr (AlertValue s v) else Inl TypeError)"

text \<open>What the environment answers to the request: \<^verbatim>\<open>fetch\<close> rejects, or
  \<^verbatim>\<open>response.json()\<close> rejects, or it yields the parsed body.\<close>

datatype fetch_outcome = FetchRejects js_error | JsonRejects js_error | JsonIs jsval


text \<open>The assignments to the \<^verbatim>\<open>innerHTML\<close> of the three elements.\<close>

definition assign_criteriaList :: "criteria_tag list \<Rightarrow> page \<Rightarrow> page" where
  "assign_criteriaList html p =
     set_innerHTML CriteriaListElement (TagsMarkup html) (p\<lparr>criteriaList := html\<rparr>)"

definition assign_container :: "comparison_row list \<Rightarrow> page \<Rightarrow> page" where
  "assign_container html p =
     set_innerHTML ContainerElement (ComparisonsMarkup html)
       (p\<lparr>pairwiseComparisonsContainer := html\<rparr>)"

definition assign_results :: "results_part list \<Rightarrow> page \<Rightarrow> page" where
  "assign_results html p =
     set_innerHTML ResultsElement (ResultsMarkup html) (p\<lparr>results_innerHTML := html\<rparr>)"


section \<open>The functions of static/js/ahp.js\<close>

definition createRadio :: "string \<Rightarrow> jsnum \<Rightarrow> string \<Rightarrow> bool \<Rightarrow> radio" where
  "createRadio name v txt isChecked =
     \<lparr>input_type = ''radio'', radio_name = name, radio_value = v, checked = isChecked,
      radio_id = (name, v),
      label_class = (if v = Fin 1 then ''center-label'' else []), label_text = txt\<rparr>"

definition generatePairwiseComparisons :: "page \<Rightarrow> page" where
  "generatePairwiseComparisons p =
     (if length (criteria p) < 2 then alert (Alert ''Please add at least 2 criteria'') p
      else
        let n = length (criteria p);
            p = assign_container [] p;
            html =
              for_loop 0 n (\<lambda>i. for_loop (i + 1) n (\<lambda>j html.
                let name = ''compare_'' @ show_nat i @ ''_'' @ show_nat j
                in html @
                   [\<lparr>compare_label_left = criteria p ! i,
                     compare_label_right = criteria p ! j,
                     radio_scale =
                       [createRadio name (Fin 9) ''9'' False,
                        createRadio name (Fin 8) ''8'' False,
                        createRadio name (Fin 7) ''7'' False,
                        createRadio name (Fin 6) ''6'' False,
                        createRadio name (Fin 5) ''5'' False,
                        createRadio name (Fin 4) ''4'' False,
                        createRadio name (Fin 3) ''3'' False,
                        createRadio name (Fin 2) ''2'' False,
                        createRadio name (Fin 1) ''1'' True,
                        createRadio name (js_div (Fin 1) (Fin 2)) ''2'' False,
                        createRadio name (js_div (Fin 1) (Fin 3)) ''3'' False,
                        createRadio name (js_div (Fin 1) (Fin 4)) ''4'' False,
                        createRadio name (js_div (Fin 1) (Fin 5)) ''5'' False,
                        createRadio name (js_div (Fin 1) (Fin 6)) ''6'' False,
                        createRadio name (js_div (Fin 1) (Fin 7)) ''7'' False,
                        createRadio name (js_div (Fin 1) (Fin 8)) ''8'' False,
                        createRadio name (js_div (Fin 1) (Fin 9)) ''9'' False]\<rparr>])) []
        in (assign_container html p)\<lparr>pairwiseSection_display := ''block''\<rparr>)"

definition getPairwiseMatrix :: "page \<Rightarrow> jsnum list list" where
  "getPairwiseMatrix p =
     (let n = length (criteria p);
          matrix = replicate n (replicate n (Fin 1))
      in for_loop 0 n (\<lambda>i. for_loop (i + 1) n (\<lambda>j matrix.
           let name = ''compare_'' @ show_nat i @ ''_'' @ show_nat j
           in case querySelector_checked p name of
                None \<Rightarrow> matrix
              | Some checkedRadio \<Rightarrow>
                  let v = radio_value checkedRadio
                  in set_entry (set_entry matrix i j v) j i (js_div (Fin 1) v))) matrix)"

text \<open>The callback of \<^verbatim>\<open>data.criteria.forEach\<close>, over the elements from \<open>index\<close> on.\<close>

fun forEach_criterion ::
  "jsval \<Rightarrow> jsval list \<Rightarrow> nat \<Rightarrow> results_part list \<Rightarrow> js_error + results_part list" where
  "forEach_criterion data [] index html = Inr html"
| "forEach_criterion data (criterion # rest) index html =
     (case getProp data ''weights'' of
        Inl e \<Rightarrow> Inl e
      | Inr ws \<Rightarrow>
         (case getIndex ws index of
            Inl e \<Rightarrow> Inl e
          | Inr w \<Rightarrow>
              if \<not> coercible w then Inl TypeError
              else if \<not> coercible criterion then Inl TypeError
              else forEach_criterion data rest (Suc index)
                     (html @ [WeightItem criterion w])))"

definition displayResults :: "jsval \<Rightarrow> page \<Rightarrow> completion" where
  "displayResults data p =
     try_eval (getProp data ''criteria'') p (\<lambda>cs.
     try_eval (forEach_receiver cs) p (\<lambda>xs.
     try_eval (forEach_criterion data xs 0 [Heading ''Criteria Weights'']) p (\<lambda>html.
     try_eval (getProp data ''is_consistent'') p (\<lambda>is_consistent.
     let crClass = (if truthy is_consistent then ''good'' else ''bad'');
         crMessage =
           (if truthy is_consistent then ''Matrix is consistent (CR < 0.1)''
            else ''Matrix is inconsistent (CR >= 0.1). Please review your comparisons.'')
     in
     try_eval (getProp data ''consistency_ratio'') p (\<lambda>cr.
     try_eval (toFixed cr) p (\<lambda>ratio.
     let html = html @ [Consistency crClass ratio crMessage]
     in
     if truthy is_consistent then
       try_eval (getProp data ''weights'') p (\<lambda>ws.
       let p = p\<lparr>localStorage := (localStorage p)(''ahp_weights'' \<mapsto> ws)\<rparr>
       in
       try_eval (getProp data ''criteria'') p (\<lambda>cs.
       let p = p\<lparr>localStorage := (localStorage p)(''ahp_criteria'' \<mapsto> cs)\<rparr>;
           html = html @ [NextLink ''/saw'']
       in Normal ((assign_results html p)\<lparr>results_display := ''block''\<rparr>)))
     else Normal ((assign_results html p)\<lparr>results_display := ''block''\<rparr>)))))))"

text \<open>The \<^verbatim>\<open>try\<close> block of \<^verbatim>\<open>calculateWeights\<close>, once the request is posted.\<close>

definition calculateWeights_try :: "fetch_outcome \<Rightarrow> page \<Rightarrow> completion" where
  "calculateWeights_try response p =
     (case response of
        FetchRejects e \<Rightarrow> Thrown e p
      | JsonRejects e \<Rightarrow> Thrown e p
      | JsonIs data \<Rightarrow>
          try_eval (getProp data ''success'') p (\<lambda>success.
          if success = JBool True then
            try_eval (getProp data ''weights'') p (\<lambda>ws.
            displayResults data (p\<lparr>weights := ws\<rparr>))
          else if success = JBool False then
            try_eval (getProp data ''error'') p (\<lambda>err.
            try_eval (plus_text ''Error: '' err) p (\<lambda>msg.
            Normal (alert msg p)))
          else Normal (alert (Alert ''Unexpected response format'') p)))"

definition calculateWeights :: "fetch_outcome \<Rightarrow> page \<Rightarrow> completion" where
  "calculateWeights response p =
     (let matrix = getPairwiseMatrix p;
          p = p\<lparr>posted := posted p @
                [\<lparr>req_criteria = criteria p, req_pairwise_matrix = matrix\<rparr>]\<rparr>
      in try_catch (calculateWeights_try response p)
           (\<lambda>error p. Normal (alert (AlertError ''Error calculating weights: '' error) p)))"

section \<open>The functions of unnamed/part_000\<close>

definition createRadio_part000 :: "string \<Rightarrow> jsnum \<Rightarrow> string \<Rightarrow> bool \<Rightarrow> radio" where
  "createRadio_part000 name v txt isChecked =
     \<lparr>input_type = ''radio'', radio_name = name, radio_value = v, checked = isChecked,
      radio_id = (name, v),
      label_class = (if v = Fin 1 then ''center-label'' else []), label_text = txt\<rparr>"

definition generatePairwiseComparisons_part000 :: "page \<Rightarrow> page" where
  "generatePairwiseComparisons_part000 p =
     (if length (criteria p) < 2 then alert (Alert ''Please add at least 2 criteria'') p
      else
        let n = length (criteria p);
            p = assign_container [] p;
            html =
              for_loop 0 n (\<lambda>i. for_loop (i + 1) n (\<lambda>j html.
                let name = ''compare_'' @ show_nat i @ ''_'' @ show_nat j
                in html @
                   [\<lparr>compare_label_left = criteria p ! i,
                     compare_label_right = criteria p ! j,
                     radio_scale =
                       [createRadio_part000 name (Fin 9) ''9'' False,
                        createRadio_part000 name (Fin 8) ''8'' False,
                        createRadio_part000 name (Fin 7) ''7'' False,
                        createRadio_part000 name (Fin 6) ''6'' False,
                        createRadio_part000 name (Fin 5) ''5'' False,
                        createRadio_part000 name (Fin 4) ''4'' False,
                        createRadio_part000 name (Fin 3) ''3'' False,
                        createRadio_part000 name (Fin 2) ''2'' False,
                        createRadio_part000 name (Fin 1) ''1'' True,
                        createRadio_part000 name (js_div (Fin 1) (Fin 2)) ''2'' False,
                        createRadio_part000 name (js_div (Fin 1) (Fin 3)) ''3'' False,
                        createRadio_part000 name (js_div (Fin 1) (Fin 4)) ''4'' False,
                        createRadio_part000 name (js_div (Fin 1) (Fin 5)) ''5'' False,
                        createRadio_part000 name (js_div (Fin 1) (Fin 6)) ''6'' False,
                        createRadio_part000 name (js_div (Fin 1) (Fin 7)) ''7'' False,
                        createRadio_part000 name (js_div (Fin 1) (Fin 8)) ''8'' False,
                        createRadio_part000 name (js_div (Fin 1) (Fin 9)) ''9'' False]\<rparr>])) []
        in (assign_container html p)\<lparr>pairwiseSection_display := ''block''\<rparr>)"

definition getPairwiseMatrix_part000 :: "page \<Rightarrow> jsnum list list" where
  "getPairwiseMatrix_part000 p =
     (let n = length (criteria p);
          matrix = replicate n (replicate n (Fin 1))
      in for_loop 0 n (\<lambda>i. for_loop (i + 1) n (\<lambda>j matrix.
           let name = ''compare_'' @ show_nat i @ ''_'' @ show_nat j
           in case querySelector_checked p name of
                None \<Rightarrow> matrix
              | Some checkedRadio \<Rightarrow>
                  let v = radio_value checkedRadio
                  in set_entry (set_entry matrix i j v) j i (js_div (Fin 1) v))) matrix)"

text \<open>The callback of \<^verbatim>\<open>data.criteria.forEach\<close>, over the elements from \<open>index\<close> on.\<close>

fun forEach_criterion_part000 ::
  "jsval \<Rightarrow> jsval list \<Rightarrow> nat \<Rightarrow> results_part list \<Rightarrow> js_error + results_part list" where
  "forEach_criterion_part000 data [] index html = Inr html"
| "forEach_criterion_part000 data (criterion # rest) index html =
     (case getProp data ''weights'' of
        Inl e \<Rightarrow> Inl e
      | Inr ws \<Rightarrow>
         (case getIndex ws index of
            Inl e \<Rightarrow> Inl e
          | Inr w \<Rightarrow>
              if \<not> coercible w then Inl TypeError
              else if \<not> coercible criterion then Inl TypeError
              else forEach_criterion_part000 data rest (Suc index)
                     (html @ [WeightItem criterion w])))"

definition displayResults_part000 :: "jsval \<Rightarrow> page \<Rightarrow> completion" where
  "displayResults_part000 data p =
     try_eval (getProp data ''criteria'') p (\<lambda>cs.
     try_eval (forEach_receiver cs) p (\<lambda>xs.
     try_eval (forEach_criterion_part000 data xs 0 [Heading ''Criteria Weights'']) p (\<lambda>html.
     try_eval (getProp data ''is_consistent'') p (\<lambda>is_consistent.
     let crClass = (if truthy is_consistent then ''good'' else ''bad'');
         crMessage =
           (if truthy is_consistent then ''Matrix is consistent (CR < 0.1)''
            else ''Matrix is inconsistent (CR >= 0.1). Please review your comparisons.'')
     in
     try_eval (getProp data ''consistency_ratio'') p (\<lambda>cr.
     try_eval (toFixed cr) p (\<lambda>ratio.
     let html = html @ [Consistency crClass ratio crMessage]
     in
     if truthy is_consistent then
       try_eval (getProp data ''weights'') p (\<lambda>ws.
       let p = p\<lparr>localStorage := (localStorage p)(''ahp_weights'' \<mapsto> ws)\<rparr>
       in
       try_eval (getProp data ''criteria'') p (\<lambda>cs.
       let p = p\<lparr>localStorage := (localStorage p)(''ahp_criteria'' \<mapsto> cs)\<rparr>;
           html = html @ [NextLink ''/saw'']
       in Normal ((assign_results html p)\<lparr>results_display := ''block''\<rparr>)))
     else Normal ((assign_results html p)\<lparr>results_display := ''block''\<rparr>)))))))"

text \<open>The \<^verbatim>\<open>try\<close> block of \<^verbatim>\<open>calculateWeights\<close>, once the request is posted.\<close>

definition calculateWeights_try_part000 :: "fetch_outcome \<Rightarrow> page \<Rightarrow> completion" where
  "calculateWeights_try_part000 response p =
     (case response of
        FetchRejects e \<Rightarrow> Thrown e p
      | JsonRejects e \<Rightarrow> Thrown e p
      | JsonIs data \<Rightarrow>
          try_eval (getProp data ''success'') p (\<lambda>success.
          if success = JBool True then
            try_eval (getProp data ''weights'') p (\<lambda>ws.
            displayResults_part000 data (p\<lparr>weights := ws\<rparr>))
          else if success = JBool False then
            try_eval (getProp data ''error'') p (\<lambda>err.
            try_eval (plus_text ''Error: '' err) p (\<lambda>msg.
            Normal (alert msg p)))
          else Normal (alert (Alert ''Unexpected response format'') p)))"

definition calculateWeights_part000 :: "fetch_outcome \<Rightarrow> page \<Rightarrow> completion" where
  "calculateWeights_part000 response p =
     (let matrix = getPairwiseMatrix_part000 p;
          p = p\<lparr>posted := posted p @
                [\<lparr>req_criteria = criteria p, req_pairwise_matrix = matrix\<rparr>]\<rparr>
      in try_catch (calculateWeights_try_part000 response p)
           (\<lambda>error p. Normal (alert (AlertError ''Error calculating weights: '' error) p)))"

text \<open>The functions only this file has.\<close>

definition updateCriteriaList :: "page \<Rightarrow> page" where
  "updateCriteriaList p = assign_criteriaList (map CriteriaTag (criteria p)) p"

definition addCriteria :: "page \<Rightarrow> page" where
  "addCriteria p =
     (let criterion = trim (newCriteria p)
      in if criterion \<noteq> [] \<and> criterion \<notin> set (criteria p) then
           (updateCriteriaList (p\<lparr>criteria := criteria p @ [criterion]\<rparr>))\<lparr>newCriteria := []\<rparr>
         else p)"

text \<open>The argument is the tag the clicked button stands in.\<close>

fun removeCriteria :: "criteria_tag \<Rightarrow> page \<Rightarrow> page" where
  "removeCriteria (CriteriaTag span_text) p =
     (let criterion = trim span_text
      in updateCriteriaList (p\<lparr>criteria := filter (\<lambda>c. c \<noteq> criterion) (criteria p)\<rparr>))"

section \<open>Sessions\<close>

text \<open>
  What happens on the page: the user generates the comparisons, checks a radio
  input (which unchecks the other radio inputs of its name), or asks for the weights
  and the request is answered. An exception nobody catches ends the handler.
\<close>

datatype event = Generate | Check string jsnum | Calculate fetch_outcome

definition check_radio :: "string \<Rightarrow> jsnum \<Rightarrow> page \<Rightarrow> page" where
  "check_radio name v p =
     (if \<exists>r \<in> set (document_inputs p).
           input_type r = ''radio'' \<and> radio_name r = name \<and> radio_value r = v
      then map_inputs
             (\<lambda>r. if input_type r = ''radio'' \<and> radio_name r = name
                  then r\<lparr>checked := (radio_value r = v)\<rparr> else r) p
      else p)"

fun page_of :: "completion \<Rightarrow> page" where
  "page_of (Normal p) = p"
| "page_of (Thrown e p) = p"

fun step :: "event \<Rightarrow> page \<Rightarrow> page" where
  "step Generate p = generatePairwiseComparisons p"
| "step (Check name v) p = check_radio name v p"
| "step (Calculate response) p = page_of (calculateWeights response p)"

definition run :: "event list \<Rightarrow> page \<Rightarrow> page" where
  "run events p = fold step events p"

text \<open>
  In \<^verbatim>\<open>part_000\<close> the user can also type a name, add it, and remove a tag, and the
  list of tags is rendered when the document has loaded.
\<close>

datatype event_part000 = Shared event | Input string | Add | Remove criteria_tag | Loaded

fun step_part000 :: "event_part000 \<Rightarrow> page \<Rightarrow> page" where
  "step_part000 (Shared Generate) p = generatePairwiseComparisons_part000 p"
| "step_part000 (Shared (Check name v)) p = check_radio name v p"
| "step_part000 (Shared (Calculate response)) p = page_of (calculateWeights_part000 response p)"
| "step_part000 (Input s) p = p\<lparr>newCriteria := s\<rparr>"
| "step_part000 Add p = addCriteria p"
| "step_part000 (Remove tag) p = removeCriteria tag p"
| "step_part000 Loaded p = updateCriteriaList p"

definition run_part000 :: "event_part000 list \<Rightarrow> page \<Rightarrow> page" where
  "run_part000 events p = fold step_part000 events p"

text \<open>
  A session of \<^verbatim>\<open>part_000\<close> in the example browser: the user adds the markup of the
  checkbox as a tenth name and generates the comparisons.
\<close>

definition checkbox_session :: page where
  "checkbox_session =
     run_part000 [Loaded, Input checkbox_text, Add, Shared Generate] fresh_page"

section \<open>Specification functions\<close>

text \<open>The name of the radio group of the pair \<open>(i, j)\<close>.\<close>

definition compare_name :: "nat \<Rightarrow> nat \<Rightarrow> string" where
  "compare_name i j = ''compare_'' @ show_nat i @ ''_'' @ show_nat j"

text \<open>The value of the checked input the selector finds for the pair, if it finds one.\<close>

definition selected :: "page \<Rightarrow> nat \<Rightarrow> nat \<Rightarrow> jsnum option" where
  "selected p i j = map_option radio_value (querySelector_checked p (compare_name i j))"

text \<open>
  The entry the loops leave at row \<open>a\<close>, column \<open>b\<close>: the checked value above the
  diagonal, 1 divided by it below, and 1 where nothing is checked and on the diagonal.
\<close>

definition matrix_entry :: "page \<Rightarrow> nat \<Rightarrow> nat \<Rightarrow> jsnum" where
  "matrix_entry p a b =
     (if a < b then (case selected p a b of None \<Rightarrow> Fin 1 | Some v \<Rightarrow> v)
      else if b < a then (case selected p b a of None \<Rightarrow> Fin 1 | Some v \<Rightarrow> js_div (Fin 1) v)
      else Fin 1)"

text \<open>An array of \<open>n\<close> rows of length \<open>n\<close>.\<close>

definition square :: "nat \<Rightarrow> 'a list list \<Rightarrow> bool" where
  "square n m = (length m = n \<and> (\<forall>a < n. length (m ! a) = n))"

text \<open>
  The loop invariant of \<^verbatim>\<open>getPairwiseMatrix\<close> at outer index \<open>i\<close> and inner index \<open>j\<close>:
  the pairs before \<open>(i, j)\<close> are written, all other entries are still 1.
\<close>

definition filled :: "page \<Rightarrow> nat \<Rightarrow> nat \<Rightarrow> nat \<Rightarrow> jsnum list list \<Rightarrow> bool" where
  "filled p n i j m =
     (square n m \<and>
      (\<forall>a < n. \<forall>b < n. m ! a ! b =
         (if a \<noteq> b \<and> (min a b < i \<or> (min a b = i \<and> max a b < j))
          then matrix_entry p a b else Fin 1)))"

text \<open>The pairs \<open>i < j < n\<close> in lexicographic order.\<close>

definition pairs :: "nat \<Rightarrow> (nat \<times> nat) list" where
  "pairs n = filter (\<lambda>(i, j). i < j) (List.product [0..<n] [0..<n])"

text \<open>The number a decimal text denotes.\<close>

definition digits_value :: "string \<Rightarrow> nat" where
  "digits_value s = foldl (\<lambda>a c. 10 * a + (of_char c - 48)) 0 s"

text \<open>The 17 values of the comparison scale, in the order of the radio inputs.\<close>

definition scale_values :: "jsnum list" where
  "scale_values =
     [Fin 9, Fin 8, Fin 7, Fin 6, Fin 5, Fin 4, Fin 3, Fin 2, Fin 1,
      js_div (Fin 1) (Fin 2), js_div (Fin 1) (Fin 3), js_div (Fin 1) (Fin 4),
      js_div (Fin 1) (Fin 5), js_div (Fin 1) (Fin 6), js_div (Fin 1) (Fin 7),
      js_div (Fin 1) (Fin 8), js_div (Fin 1) (Fin 9)]"

text \<open>
  A state of the radio inputs the page generates: whatever is checked, every input
  of the document carries a value of the scale.
\<close>

definition scale_state :: "page \<Rightarrow> bool" where
  "scale_state p = list_all (\<lambda>r. radio_value r \<in> set scale_values) (document_inputs p)"

text \<open>The label texts of the 17 radio inputs.\<close>

definition scale_texts :: "string list" where
  "scale_texts = map (\<lambda>c. [c]) ''98765432123456789''"

text \<open>
  The comparison group of the pair \<open>(i, j)\<close>: the two criteria as labels, and one radio
  input per scale value, named for the pair, the one of value 1 checked.
\<close>

definition comparison_group :: "string list \<Rightarrow> nat \<Rightarrow> nat \<Rightarrow> comparison_row" where
  "comparison_group cs i j =
     \<lparr>compare_label_left = cs ! i, compare_label_right = cs ! j,
      radio_scale =
        map (\<lambda>(v, t). createRadio (compare_name i j) v t (v = Fin 1))
          (zip scale_values scale_texts)\<rparr>"

text \<open>
  The input elements of the group of the pair \<open>(i, j)\<close>: one radio input per scale
  value, named for the pair, the one of value 1 checked.
\<close>

definition group_inputs :: "nat \<Rightarrow> nat \<Rightarrow> input_element list" where
  "group_inputs i j =
     map (\<lambda>v. \<lparr>input_type = ''radio'', radio_name = compare_name i j, radio_value = v,
               checked = (v = Fin 1)\<rparr>) scale_values"

fun is_string :: "jsval \<Rightarrow> bool" where
  "is_string (JString s) = True"
| "is_string _ = False"

fun is_number :: "jsval \<Rightarrow> bool" where
  "is_number (JNumber x) = True"
| "is_number _ = False"

fun is_boolean :: "jsval \<Rightarrow> bool" where
  "is_boolean (JBool b) = True"
| "is_boolean _ = False"

fun is_array_of :: "(jsval \<Rightarrow> bool) \<Rightarrow> jsval \<Rightarrow> bool" where
  "is_array_of P (JArray xs) = list_all P xs"
| "is_array_of P _ = False"

text \<open>
  The success response of the interface: the criteria as an array of strings, the
  weights as an array of numbers, a numeric consistency ratio and a boolean verdict.
\<close>

definition success_response :: "jsval \<Rightarrow> bool" where
  "success_response data =
     (case (getProp data ''criteria'', getProp data ''weights'',
            getProp data ''consistency_ratio'', getProp data ''is_consistent'') of
        (Inr cs, Inr ws, Inr cr, Inr ic) \<Rightarrow>
          is_array_of is_string cs \<and> is_array_of is_number ws \<and> is_number cr \<and> is_boolean ic
      | _ \<Rightarrow> False)"

section \<open>Arithmetic of binary64 division\<close>

lemma pow2_powi: "pow2 e = 2 powi e"
  by (simp add: pow2_def power_int_def field_simps)

lemma pow2_pos: "0 < pow2 e"
  by (simp add: pow2_def)

lemma pow2_mono: "a \<le> b \<Longrightarrow> pow2 a \<le> pow2 b"
  by (simp add: pow2_powi power_int_increasing)

lemma ilog2_bounds:
  "1 \<le> n \<Longrightarrow> 0 \<le> ilog2 n \<and> 2 ^ nat (ilog2 n) \<le> n \<and> n < 2 * 2 ^ nat (ilog2 n)"
proof (induction n rule: ilog2.induct)
  case (1 n)
  show ?case
  proof (cases "n \<le> 1")
    case True
    with "1.prems" have "n = 1" by simp
    then show ?thesis by (simp add: ilog2.simps)
  next
    case False
    then have h: "1 \<le> n div 2" by simp
    define k where "k = ilog2 (n div 2)"
    from "1.IH" [OF False h] have k: "0 \<le> k" "2 ^ nat k \<le> n div 2" "n div 2 < 2 * 2 ^ nat k"
      by (simp_all add: k_def)
    have e: "ilog2 n = k + 1" using False by (simp add: ilog2.simps [of n] k_def)
    have n: "nat (k + 1) = Suc (nat k)" using k(1) by simp
    show ?thesis unfolding e n using k by (simp; linarith)
  qed
qed

lemma binade_bounds:
  assumes "0 < x"
  shows "pow2 (binade x) \<le> x \<and> x < pow2 (binade x + 1)"
proof (cases "1 \<le> x")
  case True
  then have f: "1 \<le> \<lfloor>x\<rfloor>" by simp
  define k where "k = ilog2 \<lfloor>x\<rfloor>"
  from ilog2_bounds [OF f] have k: "0 \<le> k" "2 ^ nat k \<le> \<lfloor>x\<rfloor>" "\<lfloor>x\<rfloor> < 2 * 2 ^ nat k"
    by (simp_all add: k_def)
  have b: "binade x = k" using True by (simp add: binade_def k_def)
  have "rat_of_int (2 ^ nat k) \<le> x" using k(2) by (simp add: le_floor_iff)
  moreover have "x < rat_of_int (2 * 2 ^ nat k)" using k(3) by (simp only: floor_less_iff)
  ultimately show ?thesis unfolding b using k(1) by (simp add: pow2_def nat_add_distrib)
next
  case False
  with assms have x1: "1 < 1 / x" by simp
  define n where "n = \<lceil>1 / x\<rceil>"
  have n2: "\<not> n \<le> 1" using x1 by (simp add: n_def less_ceiling_iff)
  then have n1: "1 \<le> n - 1" by simp
  define k where "k = ilog2 (n - 1)"
  from ilog2_bounds [OF n1] have k: "0 \<le> k" "2 ^ nat k \<le> n - 1" "n - 1 < 2 * 2 ^ nat k"
    by (simp_all add: k_def)
  have b: "binade x = - (k + 1)" using False n2 by (simp add: binade_def k_def n_def Let_def)
  have up: "1 / x \<le> rat_of_int n" by (simp add: n_def)
  have lo: "rat_of_int (n - 1) < 1 / x" unfolding n_def by linarith
  have "n \<le> 2 * 2 ^ nat k" using k(3) by simp
  then have "rat_of_int n \<le> rat_of_int (2 * 2 ^ nat k)" by (simp only: of_int_le_iff)
  with up have "1 / x \<le> rat_of_int (2 * 2 ^ nat k)" by linarith
  then have A: "1 / (2 * 2 ^ nat k) \<le> x" using assms by (simp add: field_simps)
  have "rat_of_int (2 ^ nat k) \<le> rat_of_int (n - 1)" using k(2) by (simp only: of_int_le_iff)
  with lo have "rat_of_int (2 ^ nat k) < 1 / x" by linarith
  then have B: "x < 1 / 2 ^ nat k" using assms by (simp add: field_simps)
  have p1: "pow2 (- (k + 1)) = 1 / (2 * 2 ^ nat k)" using k(1) by (simp add: pow2_def nat_add_distrib)
  have p2: "pow2 (- (k + 1) + 1) = 1 / 2 ^ nat k" using k(1) by (cases "k = 0") (simp_all add: pow2_def)
  show ?thesis unfolding b p1 p2 using A B by simp
qed

lemma binade_eqI:
  assumes "pow2 b \<le> x" and "x < pow2 (b + 1)"
  shows "binade x = b"
proof -
  have x: "0 < x" using assms(1) pow2_pos [of b] by linarith
  from binade_bounds [OF x] have c: "pow2 (binade x) \<le> x" "x < pow2 (binade x + 1)" by simp_all
  have "\<not> binade x < b"
  proof
    assume "binade x < b"
    then have "pow2 (binade x + 1) \<le> pow2 b" by (intro pow2_mono) simp
    with c(2) assms(1) show False by linarith
  qed
  moreover have "\<not> b < binade x"
  proof
    assume "b < binade x"
    then have "pow2 (b + 1) \<le> pow2 (binade x)" by (intro pow2_mono) simp
    with c(1) assms(2) show False by linarith
  qed
  ultimately show ?thesis by simp
qed

lemma round_half_even_eqI:
  assumes "of_int m - 1 / 2 < x" and "x < of_int m + 1 / 2"
  shows "round_half_even x = m"
proof -
  have "of_int (m - 1) \<le> x" using assms(1) by simp
  then have lo: "m - 1 \<le> \<lfloor>x\<rfloor>" by (simp only: le_floor_iff)
  have "x < of_int (m + 1)" using assms(2) by simp
  then have hi: "\<lfloor>x\<rfloor> < m + 1" by (simp only: floor_less_iff)
  from lo hi have f: "\<lfloor>x\<rfloor> = m \<or> \<lfloor>x\<rfloor> = m - 1" by linarith
  show ?thesis
  proof (cases "\<lfloor>x\<rfloor> = m")
    case True
    have "x - of_int m < 1 / 2" using assms by linarith
    then show ?thesis using True by (simp add: round_half_even_def Let_def)
  next
    case False
    with f have g: "\<lfloor>x\<rfloor> = m - 1" by simp
    have "1 / 2 < x - of_int (m - 1)" using assms by simp
    then show ?thesis using g by (simp add: round_half_even_def Let_def)
  qed
qed

text \<open>
  A quotient in the normal range rounds to the multiple \<open>m\<close> of its binade's spacing
  that lies less than half a spacing away.
\<close>

lemma round_doubleI:
  assumes "pow2 b \<le> x" and "x < pow2 (b + 1)" and "- 1022 \<le> b"
    and "q = pow2 (b - 52)"
    and "of_int m - 1 / 2 < x / q" and "x / q < of_int m + 1 / 2"
    and "of_int m * q < pow2 1024"
  shows "round_double x = Fin (of_int m * q)"
proof -
  have x: "0 < x" using assms(1) pow2_pos [of b] by linarith
  have b: "binade x = b" using assms(1,2) by (rule binade_eqI)
  have "max (b - 52) (- 1074) = b - 52" using assms(3) by simp
  then have q: "quantum x = q" using assms(4) by (simp add: quantum_def b)
  have m: "round_half_even (x / q) = m" using assms(5,6) by (rule round_half_even_eqI)
  have r: "round_pos x = of_int m * q" by (simp add: round_pos_def q m)
  show ?thesis using x assms(7) by (simp add: round_double_def r)
qed

lemma round_double_inv_2: "round_double (1 / 2) = Fin (1 / 2)"
  using round_doubleI [of "-1" "1 / 2" "1 / 2 ^ 53" 4503599627370496] by (simp add: pow2_def)

lemma round_double_2: "round_double 2 = Fin 2"
  using round_doubleI [of 1 "1 / (1 / 2)" "1 / 2 ^ 51" 4503599627370496] by (simp add: pow2_def)

lemma round_double_inv_3: "round_double (1 / 3) = Fin (6004799503160661 / 18014398509481984)"
  using round_doubleI [of "-2" "1 / 3" "1 / 2 ^ 54" 6004799503160661] by (simp add: pow2_def)

lemma round_double_3: "round_double (18014398509481984 / 6004799503160661) = Fin 3"
  using round_doubleI [of 1 "1 / (6004799503160661 / 18014398509481984)" "1 / 2 ^ 51" 6755399441055744] by (simp add: pow2_def)

lemma round_double_inv_4: "round_double (1 / 4) = Fin (1 / 4)"
  using round_doubleI [of "-2" "1 / 4" "1 / 2 ^ 54" 4503599627370496] by (simp add: pow2_def)

lemma round_double_4: "round_double 4 = Fin 4"
  using round_doubleI [of 2 "1 / (1 / 4)" "1 / 2 ^ 50" 4503599627370496] by (simp add: pow2_def)

lemma round_double_inv_5: "round_double (1 / 5) = Fin (3602879701896397 / 18014398509481984)"
  using round_doubleI [of "-3" "1 / 5" "1 / 2 ^ 55" 7205759403792794] by (simp add: pow2_def)

lemma round_double_5: "round_double (18014398509481984 / 3602879701896397) = Fin 5"
  using round_doubleI [of 2 "1 / (3602879701896397 / 18014398509481984)" "1 / 2 ^ 50" 5629499534213120] by (simp add: pow2_def)

lemma round_double_inv_6: "round_double (1 / 6) = Fin (6004799503160661 / 36028797018963968)"
  using round_doubleI [of "-3" "1 / 6" "1 / 2 ^ 55" 6004799503160661] by (simp add: pow2_def)

lemma round_double_6: "round_double (36028797018963968 / 6004799503160661) = Fin 6"
  using round_doubleI [of 2 "1 / (6004799503160661 / 36028797018963968)" "1 / 2 ^ 50" 6755399441055744] by (simp add: pow2_def)

lemma round_double_inv_7: "round_double (1 / 7) = Fin (2573485501354569 / 18014398509481984)"
  using round_doubleI [of "-3" "1 / 7" "1 / 2 ^ 55" 5146971002709138] by (simp add: pow2_def)

lemma round_double_7: "round_double (18014398509481984 / 2573485501354569) = Fin 7"
  using round_doubleI [of 2 "1 / (2573485501354569 / 18014398509481984)" "1 / 2 ^ 50" 7881299347898368] by (simp add: pow2_def)

lemma round_double_inv_8: "round_double (1 / 8) = Fin (1 / 8)"
  using round_doubleI [of "-3" "1 / 8" "1 / 2 ^ 55" 4503599627370496] by (simp add: pow2_def)

lemma round_double_8: "round_double 8 = Fin 8"
  using round_doubleI [of 3 "1 / (1 / 8)" "1 / 2 ^ 49" 4503599627370496] by (simp add: pow2_def)

lemma round_double_inv_9: "round_double (1 / 9) = Fin (2001599834386887 / 18014398509481984)"
  using round_doubleI [of "-4" "1 / 9" "1 / 2 ^ 56" 8006399337547548] by (simp add: pow2_def)

lemma round_double_9: "round_double (18014398509481984 / 2001599834386887) = Fin 9"
  using round_doubleI [of 3 "1 / (2001599834386887 / 18014398509481984)" "1 / 2 ^ 49" 5066549580791808] by (simp add: pow2_def)

lemma round_double_1: "round_double 1 = Fin 1"
  using round_doubleI [of 0 1 "1 / 2 ^ 52" "2 ^ 52"] by (simp add: pow2_def)

section \<open>The loops of getPairwiseMatrix\<close>

text \<open>The invariant rule of the \<^verbatim>\<open>for\<close> loop.\<close>

lemma for_loop_rule:
  assumes "P i s"
    and "\<And>k s. i \<le> k \<Longrightarrow> k < n \<Longrightarrow> P k s \<Longrightarrow> P (Suc k) (body k s)"
    and "i \<le> n"
  shows "P n (for_loop i n body s)"
  using assms
proof (induction i n body s rule: for_loop.induct)
  case (1 k n body s)
  show ?case
  proof (cases "k < n")
    case True
    have "P n (for_loop (Suc k) n body (body k s))"
    proof (rule "1.IH" [OF True])
      show "P (Suc k) (body k s)" using "1.prems"(1,2) True by simp
      show "\<And>k' s. Suc k \<le> k' \<Longrightarrow> k' < n \<Longrightarrow> P k' s \<Longrightarrow> P (Suc k') (body k' s)"
        using "1.prems"(2) by simp
      show "Suc k \<le> n" using True by simp
    qed
    then show ?thesis using True by (simp add: for_loop.simps [of k])
  next
    case False
    with "1.prems"(3) have "k = n" by simp
    then show ?thesis using "1.prems"(1) by (simp add: for_loop.simps [of n])
  qed
qed

lemma length_set_entry [simp]: "length (set_entry m i j v) = length m"
  by (simp add: set_entry_def)

lemma length_set_entry_nth [simp]: "length (set_entry m i j v ! a) = length (m ! a)"
  by (cases "a = i"; cases "i < length m") (simp_all add: set_entry_def list_update_beyond)

lemma nth_set_entry:
  "i < length m \<Longrightarrow> j < length (m ! i) \<Longrightarrow>
   set_entry m i j v ! a ! b = (if a = i \<and> b = j then v else m ! a ! b)"
  by (cases "a = i"; cases "b = j") (simp_all add: set_entry_def)

lemma square_set_entry: "square n m \<Longrightarrow> square n (set_entry m i j v)"
  by (simp add: square_def)

lemma square_replicate: "square n (replicate n (replicate n x))"
  by (simp add: square_def)

lemma filled_cond:
  assumes "i < j" and "\<not> (a = i \<and> b = j)" and "\<not> (a = j \<and> b = i)"
  shows "(a \<noteq> b \<and> (min a b < i \<or> min a b = i \<and> max a b < Suc j)) =
         (a \<noteq> b \<and> (min a b < i \<or> min a b = i \<and> max a b < j))"
  using assms by (cases "a \<le> b") (auto simp: min_def max_def)

lemma filled_step:
  assumes "filled p n i j m" and "i < j" and "j < n"
  shows "filled p n i (Suc j)
           (case querySelector_checked p (compare_name i j) of
              None \<Rightarrow> m
            | Some r \<Rightarrow>
                set_entry (set_entry m i j (radio_value r)) j i (js_div (Fin 1) (radio_value r)))"
    (is "filled p n i (Suc j) ?m'")
proof -
  have sq: "square n m" using assms(1) by (simp add: filled_def)
  then have l: "i < length m" "j < length m" "length (m ! i) = n" "length (m ! j) = n"
    using assms(2,3) by (simp_all add: square_def)
  have old: "m ! a ! b =
      (if a \<noteq> b \<and> (min a b < i \<or> (min a b = i \<and> max a b < j))
       then matrix_entry p a b else Fin 1)"
    if "a < n" "b < n" for a b
    using assms(1) that by (simp add: filled_def)
  have mij: "min i j = i" "max i j = j" "min j i = i" "max j i = j"
    using assms(2) by simp_all
  have oij: "m ! i ! j = Fin 1" using old [of i j] assms(2,3) by (simp add: mij)
  have oji: "m ! j ! i = Fin 1" using old [of j i] assms(2,3) by (simp add: mij)
  have sq': "square n ?m'" using sq by (simp add: square_set_entry split: option.splits)
  have new: "?m' ! a ! b =
      (if a = i \<and> b = j \<or> a = j \<and> b = i then matrix_entry p a b else m ! a ! b)"
    if "a < n" "b < n" for a b
  proof (cases "querySelector_checked p (compare_name i j)")
    case None
    then have "matrix_entry p i j = Fin 1" "matrix_entry p j i = Fin 1"
      using assms(2) by (simp_all add: matrix_entry_def selected_def)
    then show ?thesis using None oij oji by auto
  next
    case (Some r)
    then have "matrix_entry p i j = radio_value r"
      "matrix_entry p j i = js_div (Fin 1) (radio_value r)"
      using assms(2) by (simp_all add: matrix_entry_def selected_def)
    then show ?thesis using Some l assms(2,3) by (auto simp: nth_set_entry)
  qed
  have "?m' ! a ! b =
      (if a \<noteq> b \<and> (min a b < i \<or> min a b = i \<and> max a b < Suc j)
       then matrix_entry p a b else Fin 1)"
    if ab: "a < n" "b < n" for a b
  proof (cases "a = i \<and> b = j \<or> a = j \<and> b = i")
    case True
    then show ?thesis using new [OF ab] mij assms(2) by auto
  next
    case False
    then have "(a \<noteq> b \<and> (min a b < i \<or> min a b = i \<and> max a b < Suc j)) =
         (a \<noteq> b \<and> (min a b < i \<or> min a b = i \<and> max a b < j))"
      using assms(2) by (intro filled_cond) simp_all
    then show ?thesis using new [OF ab] old [OF ab] False by simp
  qed
  then show ?thesis using sq' by (simp add: filled_def)
qed

lemma filled_next: "filled p n i n m \<Longrightarrow> filled p n (Suc i) (Suc (Suc i)) m"
proof -
  assume f: "filled p n i n m"
  have "(a \<noteq> b \<and> (min a b < Suc i \<or> min a b = Suc i \<and> max a b < Suc (Suc i))) =
        (a \<noteq> b \<and> (min a b < i \<or> min a b = i \<and> max a b < n))" if "a < n" "b < n" for a b
    using that by (cases "a \<le> b") (auto simp: min_def max_def)
  then show ?thesis using f by (simp add: filled_def)
qed

lemma getPairwiseMatrix_filled:
  "filled p (length (criteria p)) (length (criteria p)) (Suc (length (criteria p)))
     (getPairwiseMatrix p)"
proof -
  define n where "n = length (criteria p)"
  define inner where "inner = (\<lambda>i j m.
      case querySelector_checked p (compare_name i j) of
        None \<Rightarrow> m
      | Some r \<Rightarrow>
          set_entry (set_entry m i j (radio_value r)) j i (js_div (Fin 1) (radio_value r)))"
  have g: "getPairwiseMatrix p =
      for_loop 0 n (\<lambda>i. for_loop (i + 1) n (inner i)) (replicate n (replicate n (Fin 1)))"
    unfolding getPairwiseMatrix_def compare_name_def n_def inner_def Let_def ..
  have start: "filled p n 0 (Suc 0) (replicate n (replicate n (Fin 1)))"
    by (auto simp: filled_def square_replicate)
  have "filled p n n (Suc n)
      (for_loop 0 n (\<lambda>i. for_loop (i + 1) n (inner i)) (replicate n (replicate n (Fin 1))))"
  proof (rule for_loop_rule [where P = "\<lambda>i. filled p n i (Suc i)", OF start])
    fix i m assume i: "i < n" and f: "filled p n i (Suc i) m"
    have "filled p n i n (for_loop (i + 1) n (inner i) m)"
    proof (rule for_loop_rule [where P = "filled p n i"])
      show "filled p n i (i + 1) m" using f by simp
      show "i + 1 \<le> n" using i by simp
      fix j m' assume "i + 1 \<le> j" "j < n" "filled p n i j m'"
      then show "filled p n i (Suc j) (inner i j m')"
        unfolding inner_def by (intro filled_step) simp_all
    qed
    then show "filled p n (Suc i) (Suc (Suc i)) (for_loop (i + 1) n (inner i) m)"
      by (rule filled_next)
  qed simp
  then show ?thesis by (simp add: g n_def)
qed

lemma getPairwiseMatrix_nth:
  assumes "a < length (criteria p)" and "b < length (criteria p)"
  shows "getPairwiseMatrix p ! a ! b = matrix_entry p a b"
  using getPairwiseMatrix_filled [of p] assms by (auto simp: filled_def matrix_entry_def)

lemma getPairwiseMatrix_square: "square (length (criteria p)) (getPairwiseMatrix p)"
  using getPairwiseMatrix_filled [of p] by (simp add: filled_def)

section \<open>The pairs and their names\<close>

lemma filter_greater_upt: "filter (\<lambda>j. i < j) [0..<n] = [Suc i..<n]"
  by (induction n) auto

lemma pairs_concat: "pairs n = concat (map (\<lambda>i. map (Pair i) [i + 1..<n]) [0..<n])"
proof -
  have "filter (\<lambda>(i, j). i < j) (map (Pair i) [0..<n]) = map (Pair i) [i + 1..<n]" for i
    by (simp add: filter_map comp_def filter_greater_upt)
  then show ?thesis
    by (simp add: pairs_def product_concat_map filter_concat comp_def)
qed

lemma set_pairs: "set (pairs n) = {(i, j). i < j \<and> j < n}"
  by (auto simp: pairs_def)

lemma distinct_pairs: "distinct (pairs n)"
  by (simp add: pairs_def distinct_product)

lemma for_loop_append:
  "i \<le> n \<Longrightarrow> for_loop i n (\<lambda>j h. h @ [f j]) h0 = h0 @ map f [i..<n]"
  by (rule for_loop_rule [where P = "\<lambda>k h. h = h0 @ map f [i..<k]"]) simp_all

lemma for_loop_nested:
  "for_loop 0 n (\<lambda>i. for_loop (i + 1) n (\<lambda>j h. h @ [f i j])) [] =
   map (\<lambda>(i, j). f i j) (pairs n)"
proof -
  have "for_loop 0 n (\<lambda>i. for_loop (i + 1) n (\<lambda>j h. h @ [f i j])) [] =
      concat (map (\<lambda>i. map (f i) [i + 1..<n]) [0..<n])"
    by (rule for_loop_rule
          [where P = "\<lambda>k h. h = concat (map (\<lambda>i. map (f i) [i + 1..<n]) [0..<k])"])
       (simp_all add: for_loop_append)
  also have "\<dots> = map (\<lambda>(i, j). f i j) (pairs n)"
    by (simp add: pairs_concat map_concat comp_def)
  finally show ?thesis .
qed

lemma length_pairs: "length (pairs n) = n * (n - 1) div 2"
proof -
  have "length (pairs n) = sum_list (map (\<lambda>i. n - Suc i) [0..<n])"
    by (simp add: pairs_concat length_concat comp_def)
  also have "\<dots> = (\<Sum>i<n. n - Suc i)"
    by (simp add: sum_list_sum_nth atLeast0LessThan)
  also have "\<dots> = (\<Sum>i<n. i)"
    by (rule sum.nat_diff_reindex)
  also have "\<dots> = n * (n - 1) div 2"
    by (simp add: lessThan_atLeast0 Sum_Ico_nat)
  finally show ?thesis .
qed

lemma digit_code: "d < 10 \<Longrightarrow> of_char (digit d) = 48 + d"
proof -
  assume "d < 10"
  then have "d = 0 \<or> d = 1 \<or> d = 2 \<or> d = 3 \<or> d = 4 \<or> d = 5 \<or> d = 6 \<or> d = 7 \<or> d = 8 \<or> d = 9"
    by arith
  then show ?thesis by (elim disjE) (simp_all add: digit_def)
qed

lemma digits_value_show_nat: "digits_value (show_nat n) = n"
proof (induction n rule: show_nat.induct)
  case (1 n)
  show ?case
  proof (cases "n < 10")
    case True
    then show ?thesis by (simp add: show_nat.simps [of n] digits_value_def digit_code)
  next
    case False
    have "n mod 10 < 10" by simp
    then have d: "of_char (digit (n mod 10)) = 48 + n mod 10" by (rule digit_code)
    show ?thesis using False "1.IH" [OF False]
      by (simp add: show_nat.simps [of n] digits_value_def d)
  qed
qed

lemma show_nat_inj: "show_nat a = show_nat b \<Longrightarrow> a = b"
  by (metis digits_value_show_nat)

lemma underscore_show_nat: "CHR ''_'' \<notin> set (show_nat n)"
proof -
  have "of_char c \<noteq> (95 :: nat)" if "c \<in> set (show_nat n)" for c
    using that
  proof (induction n rule: show_nat.induct)
    case (1 n)
    have m: "n mod 10 < 10" by simp
    show ?case
    proof (cases "n < 10")
      case True
      with "1.prems" have "c = digit n" by (simp add: show_nat.simps [of n])
      then show ?thesis using digit_code [OF True] True by simp
    next
      case False
      with "1.prems" have "c \<in> set (show_nat (n div 10)) \<or> c = digit (n mod 10)"
        by (auto simp: show_nat.simps [of n])
      then show ?thesis using "1.IH" [OF False] digit_code [OF m] m by auto
    qed
  qed
  then show ?thesis by force
qed

lemma compare_name_inj:
  "compare_name i j = compare_name i' j' \<longleftrightarrow> i = i' \<and> j = j'"
proof
  assume "compare_name i j = compare_name i' j'"
  then have eq: "show_nat i @ CHR ''_'' # show_nat j = show_nat i' @ CHR ''_'' # show_nat j'"
    unfolding compare_name_def by (simp only: append_Cons same_append_eq append_Nil list.inject simp_thms)
  have "show_nat i = show_nat i' \<and> show_nat j = show_nat j'"
    by (rule append_Cons_eq_iff
          [OF underscore_show_nat [of i] underscore_show_nat [of j], THEN iffD1, OF eq])
  then show "i = i' \<and> j = j'" by (simp add: show_nat_inj)
qed simp

section \<open>The two files\<close>

lemma createRadio_part000_eq: "createRadio_part000 = createRadio"
  by (intro ext) (simp add: createRadio_part000_def createRadio_def)

lemma generatePairwiseComparisons_part000_eq:
  "generatePairwiseComparisons_part000 = generatePairwiseComparisons"
  unfolding generatePairwiseComparisons_part000_def generatePairwiseComparisons_def
    createRadio_part000_eq ..

lemma getPairwiseMatrix_part000_eq: "getPairwiseMatrix_part000 = getPairwiseMatrix"
  unfolding getPairwiseMatrix_part000_def getPairwiseMatrix_def ..

lemma forEach_criterion_part000_eq:
  "forEach_criterion_part000 data xs index html = forEach_criterion data xs index html"
  by (induction data xs index html rule: forEach_criterion.induct)
     (simp_all split: sum.splits)

lemma displayResults_part000_eq: "displayResults_part000 = displayResults"
  unfolding displayResults_part000_def displayResults_def forEach_criterion_part000_eq ..

lemma calculateWeights_try_part000_eq: "calculateWeights_try_part000 = calculateWeights_try"
  unfolding calculateWeights_try_part000_def calculateWeights_try_def
    displayResults_part000_eq ..

lemma calculateWeights_part000_eq: "calculateWeights_part000 = calculateWeights"
  unfolding calculateWeights_part000_def calculateWeights_def
    calculateWeights_try_part000_eq getPairwiseMatrix_part000_eq ..

section \<open>The comparison scale\<close>

text \<open>
  The scale values as binary64 numbers; taking 1 divided by each value reverses the
  scale, so the reciprocal of a reciprocal is the value again.
\<close>

lemma scale_values_eq:
  "scale_values =
     [Fin 9, Fin 8, Fin 7, Fin 6, Fin 5, Fin 4, Fin 3, Fin 2, Fin 1,
      Fin (1 / 2), Fin (6004799503160661 / 18014398509481984), Fin (1 / 4),
      Fin (3602879701896397 / 18014398509481984), Fin (6004799503160661 / 36028797018963968),
      Fin (2573485501354569 / 18014398509481984), Fin (1 / 8),
      Fin (2001599834386887 / 18014398509481984)]"
  by (simp add: scale_values_def round_double_inv_2 round_double_inv_3 round_double_inv_4
      round_double_inv_5 round_double_inv_6 round_double_inv_7 round_double_inv_8
      round_double_inv_9)

lemma reciprocal_scale_values: "map (js_div (Fin 1)) scale_values = rev scale_values"
  by (simp add: scale_values_eq round_double_inv_2 round_double_inv_3 round_double_inv_4
      round_double_inv_5 round_double_inv_6 round_double_inv_7 round_double_inv_8
      round_double_inv_9 round_double_1 round_double_2 round_double_3 round_double_4
      round_double_5 round_double_6 round_double_7 round_double_8 round_double_9)

lemma reciprocal_in_scale: "v \<in> set scale_values \<Longrightarrow> js_div (Fin 1) v \<in> set scale_values"
proof -
  assume "v \<in> set scale_values"
  then have "js_div (Fin 1) v \<in> set (map (js_div (Fin 1)) scale_values)" by simp
  then show ?thesis by (simp only: reciprocal_scale_values set_rev)
qed

lemma reciprocal_involution:
  "v \<in> set scale_values \<Longrightarrow> js_div (Fin 1) (js_div (Fin 1) v) = v"
proof -
  have "map (js_div (Fin 1)) (map (js_div (Fin 1)) scale_values) = scale_values"
    by (simp only: reciprocal_scale_values rev_map [symmetric] rev_rev_ident)
  then have "map (\<lambda>v. js_div (Fin 1) (js_div (Fin 1) v)) scale_values = map (\<lambda>v. v) scale_values"
    by (simp add: comp_def)
  then show "v \<in> set scale_values \<Longrightarrow> js_div (Fin 1) (js_div (Fin 1) v) = v"
    by (simp only: map_eq_conv)
qed

lemma scale_positive: "v \<in> set scale_values \<Longrightarrow> \<exists>q. v = Fin q \<and> 0 < q"
  by (auto simp: scale_values_eq)

section \<open>The pairwise matrix\<close>



section \<open>The document\<close>

lemma set_innerHTML_fields [simp]:
  "criteria (set_innerHTML e m p) = criteria p"
  "weights (set_innerHTML e m p) = weights p"
  "newCriteria (set_innerHTML e m p) = newCriteria p"
  "criteriaList (set_innerHTML e m p) = criteriaList p"
  "pairwiseComparisonsContainer (set_innerHTML e m p) = pairwiseComparisonsContainer p"
  "pairwiseSection_display (set_innerHTML e m p) = pairwiseSection_display p"
  "results_innerHTML (set_innerHTML e m p) = results_innerHTML p"
  "results_display (set_innerHTML e m p) = results_display p"
  "parse_fragment (set_innerHTML e m p) = parse_fragment p"
  "localStorage (set_innerHTML e m p) = localStorage p"
  "alerts (set_innerHTML e m p) = alerts p"
  "posted (set_innerHTML e m p) = posted p"
  by (simp_all add: set_innerHTML_def map_inputs_def Let_def)

lemma content_set_innerHTML: "content (set_innerHTML e m p) e = parse_fragment p m"
  by (simp add: set_innerHTML_def map_inputs_def Let_def)

lemma content_set_innerHTML_other:
  "e' \<noteq> e \<Longrightarrow>
   fragment_inputs (content (set_innerHTML e m p) e') =
     map (uncheck_group (map radio_name
            (filter (\<lambda>r. checked r \<and> input_type r = ''radio'')
               (fragment_inputs (parse_fragment p m)))))
       (fragment_inputs (content p e')) \<and>
   fragment_links (content (set_innerHTML e m p) e') = fragment_links (content p e')"
  by (simp add: set_innerHTML_def map_inputs_def Let_def)

lemma layout_set_innerHTML:
  "layout (set_innerHTML e m p) =
     map (map_segment (uncheck_group (map radio_name
            (filter (\<lambda>r. checked r \<and> input_type r = ''radio'')
               (fragment_inputs (parse_fragment p m)))))) (layout p)"
  by (simp add: set_innerHTML_def map_inputs_def Let_def)

lemma segment_inputs_map_inputs:
  "segment_inputs (map_inputs f p) (map_segment f s) = map f (segment_inputs p s)"
  by (cases s) (simp_all add: map_inputs_def)

lemma document_inputs_map_inputs: "document_inputs (map_inputs f p) = map f (document_inputs p)"
proof -
  have "layout (map_inputs f p) = map (map_segment f) (layout p)" by (simp add: map_inputs_def)
  then show ?thesis
    by (simp add: document_inputs_def map_concat comp_def segment_inputs_map_inputs)
qed

lemma radio_value_uncheck_group [simp]: "radio_value (uncheck_group names r) = radio_value r"
  by (simp add: uncheck_group_def)

lemma document_inputs_set_innerHTML:
  assumes "r \<in> set (document_inputs (set_innerHTML e m p))"
  shows "r \<in> set (fragment_inputs (parse_fragment p m)) \<or>
         (\<exists>r' \<in> set (document_inputs p). radio_value r = radio_value r')"
proof -
  define names where "names = map radio_name
      (filter (\<lambda>r. checked r \<and> input_type r = ''radio'') (fragment_inputs (parse_fragment p m)))"
  define p1 where "p1 = map_inputs (uncheck_group names) p"
  have s: "set_innerHTML e m p = p1\<lparr>content := (content p1)(e := parse_fragment p m)\<rparr>"
    by (simp add: set_innerHTML_def Let_def names_def p1_def)
  have seg: "set (segment_inputs (p1\<lparr>content := (content p1)(e := parse_fragment p m)\<rparr>) s)
      \<subseteq> set (fragment_inputs (parse_fragment p m)) \<union> set (segment_inputs p1 s)" for s
    by (cases s) auto
  from assms obtain s where "s \<in> set (layout p1)"
      "r \<in> set (segment_inputs (p1\<lparr>content := (content p1)(e := parse_fragment p m)\<rparr>) s)"
    unfolding s by (auto simp: document_inputs_def)
  with seg [of s] have "r \<in> set (fragment_inputs (parse_fragment p m)) \<or>
      r \<in> set (document_inputs p1)"
    by (auto simp: document_inputs_def)
  then show ?thesis
    unfolding p1_def document_inputs_map_inputs by auto
qed

lemma scale_state_set_innerHTML:
  assumes "scale_state p"
    and "\<forall>r \<in> set (fragment_inputs (parse_fragment p m)). radio_value r \<in> set scale_values"
  shows "scale_state (set_innerHTML e m p)"
  unfolding scale_state_def list_all_iff
proof
  fix r assume "r \<in> set (document_inputs (set_innerHTML e m p))"
  from document_inputs_set_innerHTML [OF this] show "radio_value r \<in> set scale_values"
    using assms by (auto simp: scale_state_def list_all_iff)
qed

lemma conformant_set_innerHTML [simp]: "conformant (set_innerHTML e m p) = conformant p"
  by (simp add: conformant_def)

section \<open>The generated comparisons\<close>

lemma digits_show_nat:
  "c \<in> set (show_nat n) \<Longrightarrow> 48 \<le> (of_char c :: nat) \<and> (of_char c :: nat) \<le> 57"
proof (induction n rule: show_nat.induct)
  case (1 n)
  have m: "n mod 10 < 10" by simp
  show ?case
  proof (cases "n < 10")
    case True
    with "1.prems" have "c = digit n" by (simp add: show_nat.simps [of n])
    then show ?thesis using digit_code [OF True] True by simp
  next
    case False
    with "1.prems" have "c \<in> set (show_nat (n div 10)) \<or> c = digit (n mod 10)"
      by (auto simp: show_nat.simps [of n])
    then show ?thesis using "1.IH" [OF False] digit_code [OF m] m by auto
  qed
qed

lemma quote_free_compare_name: "quote_free (compare_name i j)"
  using digits_show_nat [of "CHR 0x22" i] digits_show_nat [of "CHR 0x22" j]
  by (auto simp: quote_free_def compare_name_def)

lemma assign_container_fields [simp]:
  "criteria (assign_container html p) = criteria p"
  "alerts (assign_container html p) = alerts p"
  "pairwiseComparisonsContainer (assign_container html p) = html"
  "parse_fragment (assign_container html p) = parse_fragment p"
  "content (assign_container html p) ContainerElement = parse_fragment p (ComparisonsMarkup html)"
  by (simp_all add: assign_container_def content_set_innerHTML)

lemma comparison_group_template:
  "\<lparr>compare_label_left = cs ! i, compare_label_right = cs ! j,
    radio_scale =
         [createRadio (''compare_'' @ show_nat i @ ''_'' @ show_nat j) (Fin 9) ''9'' False,
          createRadio (''compare_'' @ show_nat i @ ''_'' @ show_nat j) (Fin 8) ''8'' False,
          createRadio (''compare_'' @ show_nat i @ ''_'' @ show_nat j) (Fin 7) ''7'' False,
          createRadio (''compare_'' @ show_nat i @ ''_'' @ show_nat j) (Fin 6) ''6'' False,
          createRadio (''compare_'' @ show_nat i @ ''_'' @ show_nat j) (Fin 5) ''5'' False,
          createRadio (''compare_'' @ show_nat i @ ''_'' @ show_nat j) (Fin 4) ''4'' False,
          createRadio (''compare_'' @ show_nat i @ ''_'' @ show_nat j) (Fin 3) ''3'' False,
          createRadio (''compare_'' @ show_nat i @ ''_'' @ show_nat j) (Fin 2) ''2'' False,
          createRadio (''compare_'' @ show_nat i @ ''_'' @ show_nat j) (Fin 1) ''1'' True,
          createRadio (''compare_'' @ show_nat i @ ''_'' @ show_nat j) (js_div (Fin 1) (Fin 2)) ''2'' False,
          createRadio (''compare_'' @ show_nat i @ ''_'' @ show_nat j) (js_div (Fin 1) (Fin 3)) ''3'' False,
          createRadio (''compare_'' @ show_nat i @ ''_'' @ show_nat j) (js_div (Fin 1) (Fin 4)) ''4'' False,
          createRadio (''compare_'' @ show_nat i @ ''_'' @ show_nat j) (js_div (Fin 1) (Fin 5)) ''5'' False,
          createRadio (''compare_'' @ show_nat i @ ''_'' @ show_nat j) (js_div (Fin 1) (Fin 6)) ''6'' False,
          createRadio (''compare_'' @ show_nat i @ ''_'' @ show_nat j) (js_div (Fin 1) (Fin 7)) ''7'' False,
          createRadio (''compare_'' @ show_nat i @ ''_'' @ show_nat j) (js_div (Fin 1) (Fin 8)) ''8'' False,
          createRadio (''compare_'' @ show_nat i @ ''_'' @ show_nat j) (js_div (Fin 1) (Fin 9)) ''9'' False]\<rparr> =
   comparison_group cs i j"
  by (simp add: comparison_group_def scale_values_def scale_texts_def compare_name_def
      round_double_inv_2 round_double_inv_3 round_double_inv_4 round_double_inv_5
      round_double_inv_6 round_double_inv_7 round_double_inv_8 round_double_inv_9)

lemma generatePairwiseComparisons_rows:
  "generatePairwiseComparisons p =
     (if length (criteria p) < 2 then alert (Alert ''Please add at least 2 criteria'') p
      else (assign_container
              (map (\<lambda>(i, j). comparison_group (criteria p) i j) (pairs (length (criteria p))))
              (assign_container [] p))\<lparr>pairwiseSection_display := ''block''\<rparr>)"
  unfolding generatePairwiseComparisons_def Let_def assign_container_fields
    comparison_group_template for_loop_nested ..

lemma radio_values_comparison_group:
  "map radio_value (radio_scale (comparison_group cs i j)) = scale_values"
  by (simp add: comparison_group_def createRadio_def scale_values_def scale_texts_def)

lemma radio_names_comparison_group:
  "map radio_name (radio_scale (comparison_group cs i j)) = replicate 17 (compare_name i j)"
  by (simp add: comparison_group_def createRadio_def scale_values_def scale_texts_def
      numeral_eq_Suc)

lemma checked_comparison_group:
  "map checked (radio_scale (comparison_group cs i j)) = map (\<lambda>v. v = Fin 1) scale_values"
  by (simp add: comparison_group_def createRadio_def scale_values_def scale_texts_def)

text \<open>What a browser parses the markup of a group to.\<close>

lemma attribute_number_scale: "map attribute_number scale_values = scale_values"
  by (simp add: scale_values_eq attribute_number_def)

lemma written_comparison_group:
  "map written_input (radio_scale (comparison_group cs i j)) = group_inputs i j"
proof -
  have "map written_input (radio_scale (comparison_group cs i j)) =
      map (\<lambda>v. \<lparr>input_type = ''radio'', radio_name = compare_name i j,
                radio_value = attribute_number v, checked = (v = Fin 1)\<rparr>) scale_values"
    by (simp add: comparison_group_def createRadio_def scale_values_def scale_texts_def
        written_input_def)
  also have "\<dots> = group_inputs i j"
    by (simp add: group_inputs_def scale_values_eq attribute_number_def)
  finally show ?thesis .
qed

lemma plain_comparison_group:
  assumes "tag_free (cs ! i)" and "tag_free (cs ! j)"
  shows "plain_row (comparison_group cs i j)"
  using assms
  by (simp add: plain_row_def comparison_group_def scale_values_eq scale_texts_def
      plain_radio_def createRadio_def quote_free_compare_name)
     (simp add: quote_free_def)

lemma checked_radios_comparison_group:
  "filter (\<lambda>r. checked r \<and> input_type r = ''radio'') (radio_scale (comparison_group cs i j)) =
     [createRadio (compare_name i j) (Fin 1) ''1'' True]"
  by (simp add: comparison_group_def scale_values_eq scale_texts_def createRadio_def)

lemma distinct_compare_names: "distinct (map (\<lambda>(i, j). compare_name i j) (pairs n))"
  by (auto simp: distinct_map distinct_pairs inj_on_def compare_name_inj)

lemma plain_generated_markup:
  assumes "list_all tag_free cs"
  shows "plain_markup
           (ComparisonsMarkup (map (\<lambda>(i, j). comparison_group cs i j) (pairs (length cs))))"
proof -
  have rows: "list_all plain_row (map (\<lambda>(i, j). comparison_group cs i j) (pairs (length cs)))"
    using assms by (auto simp: list_all_iff set_pairs intro!: plain_comparison_group)
  have "filter (\<lambda>r. checked r \<and> input_type r = ''radio'')
          (concat (map radio_scale (map (\<lambda>(i, j). comparison_group cs i j) (pairs (length cs))))) =
        map (\<lambda>(i, j). createRadio (compare_name i j) (Fin 1) ''1'' True) (pairs (length cs))"
    by (induction "pairs (length cs)")
       (simp_all add: filter_concat comp_def split_def checked_radios_comparison_group)
  then have "map radio_name (filter (\<lambda>r. checked r \<and> input_type r = ''radio'')
          (concat (map radio_scale (map (\<lambda>(i, j). comparison_group cs i j) (pairs (length cs)))))) =
        map (\<lambda>(i, j). compare_name i j) (pairs (length cs))"
    by (simp add: comp_def split_def createRadio_def)
  then show ?thesis using rows by (simp add: distinct_compare_names)
qed

section \<open>States of the generated inputs\<close>

lemma document_inputs_cong:
  "content q = content p \<Longrightarrow> layout q = layout p \<Longrightarrow> document_inputs q = document_inputs p"
proof -
  assume c: "content q = content p" and l: "layout q = layout p"
  have "segment_inputs q s = segment_inputs p s" for s by (cases s) (simp_all add: c)
  then have "segment_inputs q = segment_inputs p" by (intro ext)
  then show ?thesis by (simp add: document_inputs_def l)
qed

lemma scale_state_cong:
  assumes "content q = content p" and "layout q = layout p"
  shows "scale_state q = scale_state p"
  using document_inputs_cong [OF assms] by (simp add: scale_state_def)

lemma content_generatePairwiseComparisons:
  assumes "2 \<le> length (criteria p)"
  shows "content (generatePairwiseComparisons p) ContainerElement =
     parse_fragment p (ComparisonsMarkup
       (map (\<lambda>(i, j). comparison_group (criteria p) i j) (pairs (length (criteria p)))))"
  using assms by (simp add: generatePairwiseComparisons_rows)

lemma written_generated_markup:
  "written (ComparisonsMarkup (map (\<lambda>(i, j). comparison_group cs i j) (pairs n))) =
     \<lparr>fragment_inputs = concat (map (\<lambda>(i, j). group_inputs i j) (pairs n)),
      fragment_links = []\<rparr>"
  by (simp add: map_concat comp_def split_def written_comparison_group)

lemma radio_values_group_inputs: "map radio_value (group_inputs i j) = scale_values"
  by (simp add: group_inputs_def comp_def)

lemma scale_state_assign_container:
  assumes "scale_state p"
    and "\<forall>r \<in> set (fragment_inputs (parse_fragment p (ComparisonsMarkup html))).
           radio_value r \<in> set scale_values"
  shows "scale_state (assign_container html p)"
proof -
  have "scale_state (p\<lparr>pairwiseComparisonsContainer := html\<rparr>) = scale_state p"
    by (rule scale_state_cong) simp_all
  with assms(1) have "scale_state (p\<lparr>pairwiseComparisonsContainer := html\<rparr>)" by simp
  then show ?thesis unfolding assign_container_def
    using assms(2) by (intro scale_state_set_innerHTML) simp_all
qed

lemma scale_state_generatePairwiseComparisons:
  assumes "scale_state p" and "conformant p" and "list_all tag_free (criteria p)"
  shows "scale_state (generatePairwiseComparisons p)"
proof (cases "length (criteria p) < 2")
  case True
  have "scale_state (alert (Alert ''Please add at least 2 criteria'') p) = scale_state p"
    by (rule scale_state_cong) (simp_all add: alert_def)
  then show ?thesis using True assms(1) by (simp add: generatePairwiseComparisons_rows)
next
  case False
  define rows where
    "rows = map (\<lambda>(i, j). comparison_group (criteria p) i j) (pairs (length (criteria p)))"
  have e: "parse_fragment p (ComparisonsMarkup []) = written (ComparisonsMarkup [])"
    using assms(2) by (simp add: conformant_def)
  have r: "parse_fragment p (ComparisonsMarkup rows) = written (ComparisonsMarkup rows)"
    using assms(2) plain_generated_markup [OF assms(3)] by (simp add: conformant_def rows_def)
  have v: "radio_value x \<in> set scale_values"
    if "x \<in> set (fragment_inputs (written (ComparisonsMarkup rows)))" for x
  proof -
    from that obtain i j where "x \<in> set (group_inputs i j)"
      unfolding rows_def written_generated_markup by auto
    then have "radio_value x \<in> set (map radio_value (group_inputs i j))" by simp
    then show ?thesis by (simp only: radio_values_group_inputs)
  qed
  have "scale_state (assign_container [] p)"
    using assms(1) by (rule scale_state_assign_container) (simp add: e)
  then have "scale_state (assign_container rows (assign_container [] p))"
    by (rule scale_state_assign_container) (simp add: r v)
  moreover have "scale_state
      ((assign_container rows (assign_container [] p))\<lparr>pairwiseSection_display := ''block''\<rparr>) =
      scale_state (assign_container rows (assign_container [] p))"
    by (rule scale_state_cong) simp_all
  ultimately show ?thesis using False
    by (simp add: generatePairwiseComparisons_rows rows_def [symmetric])
qed

lemma scale_state_check_radio: "scale_state p \<Longrightarrow> scale_state (check_radio name v p)"
  by (auto simp: scale_state_def check_radio_def document_inputs_map_inputs list_all_iff)

lemma tag_free_checkbox_text: "\<not> tag_free checkbox_text"
  by (simp add: checkbox_text_def opens_tag_def is_letter_def)

lemma tag_free_link_text: "\<not> tag_free link_text"
  by (simp add: link_text_def opens_tag_def is_letter_def)

lemma text_elements_tag_free: "tag_free s \<Longrightarrow> text_inputs s = [] \<and> text_links s = []"
  using tag_free_checkbox_text tag_free_link_text by (auto simp: text_inputs_def text_links_def)

lemma example_parser_tags:
  "list_all plain_tag tags \<Longrightarrow>
   concat (map (text_inputs \<circ> tag_text) tags) = [] \<and>
   concat (map (text_links \<circ> tag_text) tags) = []"
proof (induction tags)
  case (Cons t tags)
  then show ?case by (cases t) (simp add: text_elements_tag_free)
qed simp

lemma example_parser_rows:
  "list_all plain_row rows \<Longrightarrow>
   concat (map (\<lambda>row. text_inputs (compare_label_left row) @
                      text_inputs (compare_label_right row) @
                      map written_input (radio_scale row)) rows) =
     map written_input (concat (map radio_scale rows)) \<and>
   concat (map (\<lambda>row. text_links (compare_label_left row) @
                      text_links (compare_label_right row)) rows) = []"
  by (induction rows) (simp_all add: plain_row_def text_elements_tag_free)

lemma example_parser_part:
  "plain_part part \<Longrightarrow>
   concat (map text_inputs (part_texts part)) = [] \<and>
   concat (map text_links (part_texts part)) = []"
proof (cases part)
  case (WeightItem c w)
  assume "plain_part part"
  then show ?thesis using WeightItem by (cases c) (simp_all add: text_elements_tag_free)
qed (simp_all add: text_elements_tag_free)

lemma example_parser_parts:
  "list_all plain_part parts \<Longrightarrow>
   concat (map (\<lambda>part. concat (map text_inputs (part_texts part))) parts) = [] \<and>
   concat (map (\<lambda>part. concat (map text_links (part_texts part)) @ written_links part) parts) =
     concat (map written_links parts)"
  by (induction parts) (simp_all add: example_parser_part)

lemma conformant_fresh_page: "conformant fresh_page"
proof -
  have "example_parser m = written m" if "plain_markup m" for m
    using that
    by (cases m) (simp_all add: example_parser_tags example_parser_rows example_parser_parts)
  then show ?thesis by (simp add: conformant_def fresh_page_def)
qed

lemma tag_free_criteria_init: "list_all tag_free criteria_init"
  by (simp add: criteria_init_def)

lemma scale_state_fresh_page: "scale_state fresh_page"
  by (simp add: scale_state_def fresh_page_def document_inputs_def)

lemma scale_state_generated: "scale_state (generatePairwiseComparisons fresh_page)"
proof -
  have "list_all tag_free (criteria fresh_page)"
    using tag_free_criteria_init by (simp add: fresh_page_def)
  with scale_state_fresh_page conformant_fresh_page show ?thesis
    by (rule scale_state_generatePairwiseComparisons)
qed

section \<open>What the functions leave untouched\<close>

lemma assign_results_fields [simp]:
  "criteria (assign_results html p) = criteria p"
  "weights (assign_results html p) = weights p"
  "pairwiseComparisonsContainer (assign_results html p) = pairwiseComparisonsContainer p"
  "results_innerHTML (assign_results html p) = html"
  "parse_fragment (assign_results html p) = parse_fragment p"
  "localStorage (assign_results html p) = localStorage p"
  "alerts (assign_results html p) = alerts p"
  "posted (assign_results html p) = posted p"
  "content (assign_results html p) ResultsElement = parse_fragment p (ResultsMarkup html)"
  by (simp_all add: assign_results_def content_set_innerHTML)

lemma assign_criteriaList_fields [simp]:
  "criteria (assign_criteriaList html p) = criteria p"
  "newCriteria (assign_criteriaList html p) = newCriteria p"
  "criteriaList (assign_criteriaList html p) = html"
  "parse_fragment (assign_criteriaList html p) = parse_fragment p"
  "content (assign_criteriaList html p) CriteriaListElement = parse_fragment p (TagsMarkup html)"
  by (simp_all add: assign_criteriaList_def content_set_innerHTML)

lemma displayResults_untouched:
  "criteria (page_of (displayResults data p)) = criteria p \<and>
   weights (page_of (displayResults data p)) = weights p \<and>
   pairwiseComparisonsContainer (page_of (displayResults data p)) =
     pairwiseComparisonsContainer p \<and>
   alerts (page_of (displayResults data p)) = alerts p \<and>
   posted (page_of (displayResults data p)) = posted p"
  by (simp add: displayResults_def try_eval_def Let_def split: sum.splits)

lemma displayResults_Thrown: "displayResults data p = Thrown e q \<Longrightarrow> q = p"
  by (simp add: displayResults_def try_eval_def Let_def split: sum.splits if_splits)

lemma calculateWeights_try_untouched:
  "criteria (page_of (calculateWeights_try response p)) = criteria p \<and>
   pairwiseComparisonsContainer (page_of (calculateWeights_try response p)) =
     pairwiseComparisonsContainer p \<and>
   posted (page_of (calculateWeights_try response p)) = posted p"
proof (cases response)
  case (JsonIs data)
  show ?thesis
  proof (cases "getProp data ''success''")
    case (Inl e)
    then show ?thesis using JsonIs by (simp add: calculateWeights_try_def try_eval_def)
  next
    case (Inr success)
    consider (yes) "success = JBool True" | (no) "success = JBool False"
      | (other) "success \<noteq> JBool True" "success \<noteq> JBool False" by blast
    then show ?thesis
    proof cases
      case yes
      show ?thesis
      proof (cases "getProp data ''weights''")
        case (Inl e)
        then show ?thesis using JsonIs Inr yes
          by (simp add: calculateWeights_try_def try_eval_def)
      next
        case ws: (Inr ws)
        have "page_of (calculateWeights_try response p) =
            page_of (displayResults data (p\<lparr>weights := ws\<rparr>))"
          using JsonIs Inr yes ws by (simp add: calculateWeights_try_def try_eval_def)
        then show ?thesis
          using displayResults_untouched [of data "p\<lparr>weights := ws\<rparr>"] by simp
      qed
    next
      case no
      then show ?thesis using JsonIs Inr
        by (simp add: calculateWeights_try_def try_eval_def alert_def split: sum.splits)
    next
      case other
      then show ?thesis using JsonIs Inr
        by (simp add: calculateWeights_try_def try_eval_def alert_def)
    qed
  qed
qed (simp_all add: calculateWeights_try_def)

lemma calculateWeights_Normal:
  "calculateWeights response p =
     Normal (case calculateWeights_try response
                  (p\<lparr>posted := posted p @
                     [\<lparr>req_criteria = criteria p,
                       req_pairwise_matrix = getPairwiseMatrix p\<rparr>]\<rparr>) of
               Normal q \<Rightarrow> q
             | Thrown e q \<Rightarrow> alert (AlertError ''Error calculating weights: '' e) q)"
  by (simp add: calculateWeights_def try_catch_def Let_def split: completion.splits)

lemma calculateWeights_untouched:
  "criteria (page_of (calculateWeights response p)) = criteria p \<and>
   pairwiseComparisonsContainer (page_of (calculateWeights response p)) =
     pairwiseComparisonsContainer p"
proof -
  define p1 where "p1 = p\<lparr>posted := posted p @
      [\<lparr>req_criteria = criteria p, req_pairwise_matrix = getPairwiseMatrix p\<rparr>]\<rparr>"
  have "criteria (page_of (calculateWeights_try response p1)) = criteria p1"
    "pairwiseComparisonsContainer (page_of (calculateWeights_try response p1)) =
     pairwiseComparisonsContainer p1"
    using calculateWeights_try_untouched [of response p1] by simp_all
  then show ?thesis
    by (cases "calculateWeights_try response p1")
       (simp_all add: calculateWeights_Normal p1_def [symmetric] alert_def, simp_all add: p1_def)
qed

lemma criteria_generatePairwiseComparisons [simp]:
  "criteria (generatePairwiseComparisons p) = criteria p"
  by (simp add: generatePairwiseComparisons_rows alert_def)

lemma criteria_check_radio [simp]: "criteria (check_radio name v p) = criteria p"
  by (simp add: check_radio_def map_inputs_def)

text \<open>
  From a page whose parser conforms and whose names carry no markup, generating the
  comparisons and checking radio inputs lead only to states where every input of the
  document carries a value of the scale.
\<close>

lemma scale_state_run:
  assumes "\<forall>e \<in> set events. e = Generate \<or> (\<exists>name v. e = Check name v)"
    and "conformant p" and "list_all tag_free (criteria p)" and "scale_state p"
  shows "scale_state (run events p)"
  using assms unfolding run_def
proof (induction events arbitrary: p)
  case Nil
  then show ?case by simp
next
  case (Cons e events)
  from Cons.prems(1) consider "e = Generate" | name v where "e = Check name v" by auto
  then have "conformant (step e p) \<and> list_all tag_free (criteria (step e p)) \<and>
      scale_state (step e p)"
  proof cases
    case 1
    have "parse_fragment (generatePairwiseComparisons p) = parse_fragment p"
      by (simp add: generatePairwiseComparisons_rows alert_def)
    then have "conformant (generatePairwiseComparisons p)"
      using Cons.prems(2) by (simp add: conformant_def)
    then show ?thesis using 1 Cons.prems(2,3,4)
      by (simp add: scale_state_generatePairwiseComparisons)
  next
    case 2
    have "parse_fragment (check_radio name v p) = parse_fragment p"
      by (simp add: check_radio_def map_inputs_def)
    then have "conformant (check_radio name v p)"
      using Cons.prems(2) by (simp add: conformant_def)
    then show ?thesis using 2 Cons.prems(3,4) by (simp add: scale_state_check_radio)
  qed
  then show ?case using Cons.prems(1) by (simp add: Cons.IH)
qed

lemma find_Some_set: "find P xs = Some x \<Longrightarrow> x \<in> set xs"
  by (induction xs) (auto split: if_splits)

lemma selected_in_scale:
  assumes "scale_state p" and "querySelector_checked p name = Some r"
  shows "radio_value r \<in> set scale_values"
proof -
  from assms(2) have "r \<in> set (document_inputs p)"
    unfolding querySelector_checked_def by (rule find_Some_set)
  with assms(1) show ?thesis by (auto simp: scale_state_def list_all_iff)
qed

lemma matrix_entry_reciprocal_upper:
  "a < b \<Longrightarrow> matrix_entry p b a = js_div (Fin 1) (matrix_entry p a b)"
  by (simp add: matrix_entry_def round_double_1 split: option.splits)

lemma matrix_entry_reciprocal_lower:
  assumes "scale_state p" and "b < a"
  shows "matrix_entry p b a = js_div (Fin 1) (matrix_entry p a b)"
proof (cases "querySelector_checked p (compare_name b a)")
  case None
  then show ?thesis using assms(2) by (simp add: matrix_entry_def selected_def round_double_1)
next
  case (Some r)
  then have "js_div (Fin 1) (js_div (Fin 1) (radio_value r)) = radio_value r"
    using assms(1) by (intro reciprocal_involution selected_in_scale)
  then show ?thesis using assms(2) Some by (simp add: matrix_entry_def selected_def)
qed

lemma matrix_entry_diagonal: "matrix_entry p a a = Fin 1"
  by (simp add: matrix_entry_def)

section \<open>A name that carries markup\<close>

lemma round_double_inv_49: "round_double (1 / 49) = Fin (5882252574524729 / 288230376151711744)"
  using round_doubleI [of "-6" "1 / 49" "1 / 2 ^ 58" 5882252574524729] by (simp add: pow2_def)

lemma round_double_49:
  "round_double (288230376151711744 / 5882252574524729) =
     Fin (6896136929411073 / 140737488355328)"
  using round_doubleI [of 5 "1 / (5882252574524729 / 288230376151711744)" "1 / 2 ^ 47"
      6896136929411073]
  by (simp add: pow2_def)

lemma trim_checkbox_text: "trim checkbox_text = checkbox_text"
  by (simp add: trim_def checkbox_text_def is_white_space_def)

lemma checkbox_text_new: "checkbox_text \<noteq> [] \<and> checkbox_text \<notin> set criteria_init"
  by (simp add: checkbox_text_def criteria_init_def)

lemma text_inputs_names:
  "concat (map (text_inputs \<circ> tag_text) (map CriteriaTag (criteria_init @ [checkbox_text]))) =
     [checkbox_element]"
proof -
  have "text_inputs c = []" if "c \<in> set criteria_init" for c
    using that checkbox_text_new by (auto simp: text_inputs_def)
  then have "concat (map (text_inputs \<circ> tag_text) (map CriteriaTag criteria_init)) = []"
    by simp
  then show ?thesis by (simp add: text_inputs_def)
qed

lemma uncheck_group_checkbox [simp]: "uncheck_group names checkbox_element = checkbox_element"
  by (simp add: uncheck_group_def checkbox_element_def)

lemma compare_name_0_9: "compare_name 0 9 = ''compare_0_9''"
  by (simp add: compare_name_def show_nat.simps digit_def)

lemma layout_kept:
  assumes "\<forall>s \<in> set (layout p). \<exists>e. s = Inside e"
  shows "layout (set_innerHTML e m p) = layout p"
proof -
  have "map_segment f s = s" if "s \<in> set (layout p)" for f s
    using assms that by auto
  then show ?thesis by (simp add: layout_set_innerHTML map_idI)
qed

lemma layout_updateCriteriaList:
  "\<forall>s \<in> set (layout p). \<exists>e. s = Inside e \<Longrightarrow> layout (updateCriteriaList p) = layout p"
  by (simp add: updateCriteriaList_def assign_criteriaList_def layout_kept)

lemma layout_assign_container:
  "\<forall>s \<in> set (layout p). \<exists>e. s = Inside e \<Longrightarrow> layout (assign_container html p) = layout p"
  by (simp add: assign_container_def layout_kept)

lemma other_content_assign_container:
  "e \<noteq> ContainerElement \<Longrightarrow>
   \<exists>names. fragment_inputs (content (assign_container html p) e) =
     map (uncheck_group names) (fragment_inputs (content p e))"
  unfolding assign_container_def
  by (intro exI, rule content_set_innerHTML_other [THEN conjunct1, where p1 = "p\<lparr>pairwiseComparisonsContainer := html\<rparr>", simplified]) simp

lemma checkbox_session_added:
  "run_part000 [Loaded, Input checkbox_text, Add] fresh_page =
     (updateCriteriaList
        ((updateCriteriaList fresh_page)
           \<lparr>newCriteria := checkbox_text, criteria := criteria_init @ [checkbox_text]\<rparr>))
       \<lparr>newCriteria := []\<rparr>"
proof -
  have c: "criteria (updateCriteriaList fresh_page) = criteria_init"
    by (simp add: updateCriteriaList_def fresh_page_def)
  show ?thesis
    using checkbox_text_new
    by (simp add: run_part000_def addCriteria_def Let_def trim_checkbox_text c)
qed

lemma checkbox_session_facts:
  "criteria checkbox_session = criteria_init @ [checkbox_text] \<and>
   layout checkbox_session =
     [Inside CriteriaListElement, Inside ContainerElement, Inside ResultsElement] \<and>
   fragment_inputs (content checkbox_session CriteriaListElement) = [checkbox_element] \<and>
   content checkbox_session ContainerElement =
     example_parser (ComparisonsMarkup
       (map (\<lambda>(i, j). comparison_group (criteria_init @ [checkbox_text]) i j) (pairs 10)))"
proof -
  define q0 where "q0 = updateCriteriaList fresh_page"
  define q1 where
    "q1 = q0\<lparr>newCriteria := checkbox_text, criteria := criteria_init @ [checkbox_text]\<rparr>"
  define q2 where "q2 = updateCriteriaList q1"
  define q where "q = q2\<lparr>newCriteria := []\<rparr>"
  define rows where
    "rows = map (\<lambda>(i, j). comparison_group (criteria_init @ [checkbox_text]) i j) (pairs 10)"
  define g0 where "g0 = assign_container [] q"
  define g1 where "g1 = assign_container rows g0"
  have l0: "layout q0 = [Inside CriteriaListElement, Inside ContainerElement, Inside ResultsElement]"
    unfolding q0_def by (subst layout_updateCriteriaList) (simp_all add: fresh_page_def)
  then have l1: "layout q1 =
      [Inside CriteriaListElement, Inside ContainerElement, Inside ResultsElement]"
    by (simp add: q1_def)
  have l2: "layout q2 = [Inside CriteriaListElement, Inside ContainerElement, Inside ResultsElement]"
    unfolding q2_def by (subst layout_updateCriteriaList) (simp_all add: l1)
  then have l: "layout q = [Inside CriteriaListElement, Inside ContainerElement, Inside ResultsElement]"
    by (simp add: q_def)
  have lg0: "layout g0 = [Inside CriteriaListElement, Inside ContainerElement, Inside ResultsElement]"
    unfolding g0_def by (subst layout_assign_container) (simp_all add: l)
  have lg1: "layout g1 = [Inside CriteriaListElement, Inside ContainerElement, Inside ResultsElement]"
    unfolding g1_def by (subst layout_assign_container) (simp_all add: lg0)
  have pf: "parse_fragment q1 = example_parser"
    by (simp add: q1_def q0_def updateCriteriaList_def fresh_page_def)
  have c1: "criteria q1 = criteria_init @ [checkbox_text]" by (simp add: q1_def)
  have cq: "criteria q = criteria_init @ [checkbox_text]"
    by (simp add: q_def q2_def updateCriteriaList_def c1)
  have pq: "parse_fragment q = example_parser"
    by (simp add: q_def q2_def updateCriteriaList_def pf)
  have "content q2 CriteriaListElement =
      example_parser (TagsMarkup (map CriteriaTag (criteria_init @ [checkbox_text])))"
    by (simp add: q2_def updateCriteriaList_def c1 pf)
  then have t: "fragment_inputs (content q CriteriaListElement) = [checkbox_element]"
    using text_inputs_names by (simp add: q_def)
  from other_content_assign_container [of CriteriaListElement "[]" q]
  have t0: "fragment_inputs (content g0 CriteriaListElement) = [checkbox_element]"
    by (auto simp: g0_def t)
  from other_content_assign_container [of CriteriaListElement rows g0]
  have t1: "fragment_inputs (content g1 CriteriaListElement) = [checkbox_element]"
    by (auto simp: g1_def t0)
  have c: "content g1 ContainerElement = example_parser (ComparisonsMarkup rows)"
    by (simp add: g1_def g0_def pq)
  have n: "length (criteria q) = 10" by (simp add: cq criteria_init_def)
  have a: "run_part000 [Loaded, Input checkbox_text, Add] fresh_page = q"
    by (simp add: checkbox_session_added q_def q2_def q1_def q0_def)
  have s: "checkbox_session = generatePairwiseComparisons q"
    unfolding a [symmetric]
    by (simp add: checkbox_session_def run_part000_def generatePairwiseComparisons_part000_eq)
  have "generatePairwiseComparisons q =
      (assign_container
         (map (\<lambda>(i, j). comparison_group (criteria q) i j) (pairs (length (criteria q))))
         (assign_container [] q))\<lparr>pairwiseSection_display := ''block''\<rparr>"
    using n by (simp only: generatePairwiseComparisons_rows) simp
  then have e: "checkbox_session = g1\<lparr>pairwiseSection_display := ''block''\<rparr>"
    unfolding s n unfolding cq g1_def g0_def rows_def .
  have A: "criteria checkbox_session = criteria_init @ [checkbox_text]"
    by (simp add: e g1_def g0_def cq)
  have B: "layout checkbox_session =
      [Inside CriteriaListElement, Inside ContainerElement, Inside ResultsElement]"
    by (simp add: e lg1)
  have C: "fragment_inputs (content checkbox_session CriteriaListElement) = [checkbox_element]"
    by (simp add: e t1)
  have "content checkbox_session ContainerElement = content g1 ContainerElement"
    by (simp add: e)
  then have D: "content checkbox_session ContainerElement =
      example_parser (ComparisonsMarkup rows)"
    by (simp only: c)
  show ?thesis using A B C D [unfolded rows_def] by (intro conjI)
qed

lemma checkbox_session_selected:
  "querySelector_checked checkbox_session (compare_name 0 9) = Some checkbox_element"
  using checkbox_session_facts
  by (simp add: querySelector_checked_def document_inputs_def compare_name_0_9
      checkbox_element_def)

lemma checkbox_session_entries:
  "getPairwiseMatrix checkbox_session ! 0 ! 9 = Fin 49 \<and>
   getPairwiseMatrix checkbox_session ! 9 ! 0 = Fin (5882252574524729 / 288230376151711744)"
proof -
  have n: "length (criteria checkbox_session) = 10"
    using checkbox_session_facts by (simp add: criteria_init_def)
  have "getPairwiseMatrix checkbox_session ! 0 ! 9 = matrix_entry checkbox_session 0 9"
    "getPairwiseMatrix checkbox_session ! 9 ! 0 = matrix_entry checkbox_session 9 0"
    by (rule getPairwiseMatrix_nth; simp add: n)+
  then show ?thesis
    by (simp add: matrix_entry_def selected_def checkbox_session_selected checkbox_element_def
        round_double_inv_49)
qed

section \<open>The matrix and its reciprocals\<close>

text \<open>
  C1, as the code has it: the matrix either file's \<^verbatim>\<open>getPairwiseMatrix\<close> returns has as
  many rows as there are criteria, each of that length, and 1 on the diagonal; the
  entry below the diagonal is 1 divided by the entry above it, whatever is checked;
  and in every state where each input of the document carries a value of the scale,
  as the inputs the page generates do, \<open>m[j][i] = 1 / m[i][j]\<close> holds for all \<open>i\<close> and
  \<open>j\<close>, in binary64 arithmetic.
\<close>

theorem pairwise_matrix_reciprocal:
  assumes "M = getPairwiseMatrix p \<or> M = getPairwiseMatrix_part000 p"
    and "n = length (criteria p)"
  shows "length M = n \<and> (\<forall>row \<in> set M. length row = n) \<and>
         (\<forall>i < n. M ! i ! i = Fin 1) \<and>
         (\<forall>i j. i < j \<and> j < n \<longrightarrow> M ! j ! i = js_div (Fin 1) (M ! i ! j)) \<and>
         (scale_state p \<longrightarrow> (\<forall>i < n. \<forall>j < n. M ! j ! i = js_div (Fin 1) (M ! i ! j)))"
proof -
  have M: "M = getPairwiseMatrix p" using assms(1) by (simp add: getPairwiseMatrix_part000_eq)
  have sq: "square n M" unfolding M assms(2) by (rule getPairwiseMatrix_square)
  have e: "M ! a ! b = matrix_entry p a b" if "a < n" "b < n" for a b
    using that unfolding M assms(2) by (rule getPairwiseMatrix_nth)
  have len: "length M = n" using sq by (simp add: square_def)
  have rows: "\<forall>row \<in> set M. length row = n"
    using sq by (auto simp: square_def in_set_conv_nth)
  have diag: "\<forall>i < n. M ! i ! i = Fin 1" by (simp add: e matrix_entry_diagonal)
  have upper: "\<forall>i j. i < j \<and> j < n \<longrightarrow> M ! j ! i = js_div (Fin 1) (M ! i ! j)"
    by (simp add: e matrix_entry_reciprocal_upper)
  have all: "M ! j ! i = js_div (Fin 1) (M ! i ! j)"
    if s: "scale_state p" and "i < n" "j < n" for i j
  proof -
    consider "i < j" | "i = j" | "j < i" by linarith
    then show ?thesis
    proof cases
      case 1
      then show ?thesis using that by (simp add: e matrix_entry_reciprocal_upper)
    next
      case 2
      then show ?thesis using that by (simp add: e matrix_entry_diagonal round_double_1)
    next
      case 3
      then show ?thesis using that by (simp add: e matrix_entry_reciprocal_lower)
    qed
  qed
  show ?thesis using len rows diag upper all by blast
qed

theorem pairwise_matrix_reciprocal_witness:
  "length (getPairwiseMatrix
     (check_radio (compare_name 0 1) (Fin 3) (generatePairwiseComparisons fresh_page))) = 9 \<and>
   getPairwiseMatrix
     (check_radio (compare_name 0 1) (Fin 3) (generatePairwiseComparisons fresh_page)) ! 4 ! 4
     = Fin 1 \<and>
   getPairwiseMatrix
     (check_radio (compare_name 0 1) (Fin 3) (generatePairwiseComparisons fresh_page)) ! 0 ! 1
     = js_div (Fin 1) (getPairwiseMatrix
         (check_radio (compare_name 0 1) (Fin 3) (generatePairwiseComparisons fresh_page)) ! 1 ! 0)"
proof -
  define w where
    "w = check_radio (compare_name 0 1) (Fin 3) (generatePairwiseComparisons fresh_page)"
  have s: "scale_state w"
    unfolding w_def by (intro scale_state_check_radio scale_state_generated)
  have n: "9 = length (criteria w)"
    by (simp add: w_def fresh_page_def criteria_init_def)
  note c = pairwise_matrix_reciprocal [of "getPairwiseMatrix w" w 9, OF disjI1 [OF refl] n]
  from c have l: "length (getPairwiseMatrix w) = 9" by (rule conjunct1)
  from c have "\<forall>i < 9. getPairwiseMatrix w ! i ! i = Fin 1" by blast
  then have d: "getPairwiseMatrix w ! 4 ! 4 = Fin 1" by simp
  from c s have "\<forall>i < 9. \<forall>j < 9.
      getPairwiseMatrix w ! j ! i = js_div (Fin 1) (getPairwiseMatrix w ! i ! j)" by blast
  from this [rule_format, of 1 0]
  have r: "getPairwiseMatrix w ! 0 ! 1 = js_div (Fin 1) (getPairwiseMatrix w ! 1 ! 0)" by simp
  note l d r
  then show ?thesis unfolding w_def by (intro conjI)
qed

text \<open>
  C1 does not hold in every state. In \<^verbatim>\<open>part_000\<close>, after the user has added the markup
  of a checked checkbox of the name \<^verbatim>\<open>compare_0_9\<close> and the value 49 as a name, the
  entry \<open>m[0][9]\<close> is 49 and \<open>m[9][0]\<close> is the binary64 quotient 1 / 49, whose
  reciprocal is the next binary64 number above 49.
\<close>

theorem reciprocal_fails_for_value_49:
  "length (criteria checkbox_session) = 10 \<and>
   getPairwiseMatrix_part000 checkbox_session ! 0 ! 9 = Fin 49 \<and>
   getPairwiseMatrix_part000 checkbox_session ! 9 ! 0 =
     Fin (5882252574524729 / 288230376151711744) \<and>
   js_div (Fin 1) (getPairwiseMatrix_part000 checkbox_session ! 9 ! 0) =
     Fin (6896136929411073 / 140737488355328) \<and>
   getPairwiseMatrix_part000 checkbox_session ! 0 ! 9 \<noteq>
     js_div (Fin 1) (getPairwiseMatrix_part000 checkbox_session ! 9 ! 0)"
proof -
  have n: "length (criteria checkbox_session) = 10"
    using checkbox_session_facts by (simp add: criteria_init_def)
  show ?thesis
    by (simp add: n getPairwiseMatrix_part000_eq checkbox_session_entries round_double_49)
qed

text \<open>
  C2: in a state of the generated radio inputs every entry of the matrix is 1, or the
  scale value checked for its pair, or 1 divided by that value, and is a positive
  number.
\<close>

theorem pairwise_matrix_positive:
  assumes "M = getPairwiseMatrix p \<or> M = getPairwiseMatrix_part000 p"
    and "scale_state p" and "i < length (criteria p)" and "j < length (criteria p)"
  shows "(M ! i ! j = Fin 1 \<or>
          (\<exists>r. querySelector_checked p (compare_name (min i j) (max i j)) = Some r \<and>
               radio_value r \<in> set scale_values \<and>
               (M ! i ! j = radio_value r \<or> M ! i ! j = js_div (Fin 1) (radio_value r)))) \<and>
         (\<exists>q. M ! i ! j = Fin q \<and> 0 < q)"
proof -
  have M: "M = getPairwiseMatrix p" using assms(1) by (simp add: getPairwiseMatrix_part000_eq)
  have e: "M ! i ! j = matrix_entry p i j"
    using assms(3,4) unfolding M by (rule getPairwiseMatrix_nth)
  show ?thesis
  proof (cases "querySelector_checked p (compare_name (min i j) (max i j))")
    case None
    then have "matrix_entry p i j = Fin 1"
      by (cases "i < j"; cases "j < i") (simp_all add: matrix_entry_def selected_def)
    then show ?thesis by (simp add: e)
  next
    case (Some r)
    have v: "radio_value r \<in> set scale_values"
      using assms(2) Some by (rule selected_in_scale)
    then have v': "js_div (Fin 1) (radio_value r) \<in> set scale_values"
      by (rule reciprocal_in_scale)
    have "matrix_entry p i j = Fin 1 \<or> matrix_entry p i j = radio_value r \<or>
        matrix_entry p i j = js_div (Fin 1) (radio_value r)"
      using Some by (cases "i < j"; cases "j < i") (simp_all add: matrix_entry_def selected_def)
    then show ?thesis using Some v scale_positive [OF v] scale_positive [OF v']
      by (auto simp: e)
  qed
qed

theorem pairwise_matrix_positive_witness:
  "\<exists>q. getPairwiseMatrix
     (check_radio (compare_name 2 5) (js_div (Fin 1) (Fin 7))
        (generatePairwiseComparisons fresh_page)) ! 5 ! 2 = Fin q \<and> 0 < q"
proof -
  define w where
    "w = check_radio (compare_name 2 5) (js_div (Fin 1) (Fin 7))
           (generatePairwiseComparisons fresh_page)"
  have s: "scale_state w"
    unfolding w_def by (intro scale_state_check_radio scale_state_generated)
  have n: "length (criteria w) = 9"
    by (simp add: w_def fresh_page_def criteria_init_def)
  from pairwise_matrix_positive [of "getPairwiseMatrix w" w 5 2, OF disjI1 [OF refl] s]
  show ?thesis unfolding w_def [symmetric] by (simp add: n)
qed

section \<open>The comparison groups\<close>

lemma sorted_wrt_product:
  "sorted_wrt (<) xs \<Longrightarrow> sorted_wrt (<) ys \<Longrightarrow>
   sorted_wrt (\<lambda>a b. fst a < fst b \<or> fst a = fst b \<and> snd a < snd b)
     (List.product xs (ys :: nat list))"
  for xs :: "nat list"
  by (induction xs) (auto simp: sorted_wrt_append sorted_wrt_map)

lemma pairs_lexicographic:
  "sorted_wrt (\<lambda>a b. fst a < fst b \<or> fst a = fst b \<and> snd a < snd b) (pairs n)"
  unfolding pairs_def by (intro sorted_wrt_filter sorted_wrt_product) simp_all

lemma matrix_entry_cong:
  assumes "\<forall>(i, j) \<in> set (pairs n).
      querySelector_checked q (compare_name i j) = querySelector_checked p (compare_name i j)"
    and "a < n" and "b < n"
  shows "matrix_entry q a b = matrix_entry p a b"
proof -
  have "selected q i j = selected p i j" if "i < j" "j < n" for i j
    using assms(1) that by (auto simp: selected_def set_pairs)
  then show ?thesis using assms(2,3) by (simp add: matrix_entry_def)
qed

lemma square_eqI:
  assumes "square n A" and "square n B"
    and "\<And>a b. a < n \<Longrightarrow> b < n \<Longrightarrow> A ! a ! b = B ! a ! b"
  shows "A = B"
proof (rule nth_equalityI)
  show "length A = length B" using assms(1,2) by (simp add: square_def)
next
  fix a assume "a < length A"
  then have a: "a < n" using assms(1) by (simp add: square_def)
  show "A ! a = B ! a"
  proof (rule nth_equalityI)
    show "length (A ! a) = length (B ! a)" using assms(1,2) a by (simp add: square_def)
  next
    fix b assume "b < length (A ! a)"
    then have "b < n" using assms(1) a by (simp add: square_def)
    then show "A ! a ! b = B ! a ! b" using a by (rule assms(3) [rotated])
  qed
qed

lemma getPairwiseMatrix_cong:
  assumes "criteria q = criteria p"
    and "\<forall>(i, j) \<in> set (pairs (length (criteria p))).
      querySelector_checked q (compare_name i j) = querySelector_checked p (compare_name i j)"
  shows "getPairwiseMatrix q = getPairwiseMatrix p"
proof (rule square_eqI [where n = "length (criteria p)"])
  show "square (length (criteria p)) (getPairwiseMatrix q)"
    using getPairwiseMatrix_square [of q] by (simp add: assms(1))
  show "square (length (criteria p)) (getPairwiseMatrix p)"
    by (rule getPairwiseMatrix_square)
  fix a b assume ab: "a < length (criteria p)" "b < length (criteria p)"
  then show "getPairwiseMatrix q ! a ! b = getPairwiseMatrix p ! a ! b"
    using matrix_entry_cong [OF assms(2) ab]
    by (simp add: getPairwiseMatrix_nth assms(1))
qed

lemma group_inputs_facts:
  "map input_type (group_inputs i j) = replicate 17 ''radio'' \<and>
   map radio_name (group_inputs i j) = replicate 17 (compare_name i j) \<and>
   map radio_value (group_inputs i j) = scale_values \<and>
   map checked (group_inputs i j) = map (\<lambda>v. v = Fin 1) scale_values"
  by (simp add: group_inputs_def comp_def) (simp add: scale_values_def numeral_eq_Suc)

lemma generated_container_content:
  assumes "2 \<le> length (criteria p)" and "conformant p" and "list_all tag_free (criteria p)"
  shows "content (generatePairwiseComparisons p) ContainerElement =
     \<lparr>fragment_inputs = concat (map (\<lambda>(i, j). group_inputs i j) (pairs (length (criteria p)))),
      fragment_links = []\<rparr>"
proof -
  have "parse_fragment p (ComparisonsMarkup
       (map (\<lambda>(i, j). comparison_group (criteria p) i j) (pairs (length (criteria p))))) =
     written (ComparisonsMarkup
       (map (\<lambda>(i, j). comparison_group (criteria p) i j) (pairs (length (criteria p)))))"
    using assms(2) plain_generated_markup [OF assms(3)] by (simp add: conformant_def)
  then show ?thesis
    by (simp only: content_generatePairwiseComparisons [OF assms(1)] written_generated_markup)
qed

text \<open>
  C10, as the code has it: with \<open>n \<ge> 2\<close> criteria either file's
  \<^verbatim>\<open>generatePairwiseComparisons\<close> assigns to the container the markup of exactly
  \<open>n (n - 1) / 2\<close> groups, the groups of the pairs \<open>i < j\<close> in lexicographic order, under
  distinct names, each with the radio inputs of the 17 scale values and only 1
  checked, and with the names of the two criteria written unescaped; the container
  then holds what the browser parses this markup to, and where the parser conforms
  and no name carries markup these are exactly the inputs of the groups. With fewer
  than two criteria it alerts and leaves the container as it is; and
  \<^verbatim>\<open>getPairwiseMatrix\<close> depends on the document only through the first checked input of
  the names of these pairs.
\<close>

theorem generated_comparison_groups:
  assumes "generate = generatePairwiseComparisons \<and> getMatrix = getPairwiseMatrix \<or>
           generate = generatePairwiseComparisons_part000 \<and> getMatrix = getPairwiseMatrix_part000"
    and "n = length (criteria p)"
  shows "(2 \<le> n \<longrightarrow>
            length (pairwiseComparisonsContainer (generate p)) = n * (n - 1) div 2 \<and>
            pairwiseComparisonsContainer (generate p) =
              map (\<lambda>(i, j). comparison_group (criteria p) i j) (pairs n) \<and>
            alerts (generate p) = alerts p \<and>
            content (generate p) ContainerElement =
              parse_fragment p (ComparisonsMarkup
                (map (\<lambda>(i, j). comparison_group (criteria p) i j) (pairs n))) \<and>
            (conformant p \<and> list_all tag_free (criteria p) \<longrightarrow>
               content (generate p) ContainerElement =
                 \<lparr>fragment_inputs = concat (map (\<lambda>(i, j). group_inputs i j) (pairs n)),
                  fragment_links = []\<rparr>)) \<and>
         set (pairs n) = {(i, j). i < j \<and> j < n} \<and>
         sorted_wrt (\<lambda>a b. fst a < fst b \<or> fst a = fst b \<and> snd a < snd b) (pairs n) \<and>
         distinct (map (\<lambda>(i, j). compare_name i j) (pairs n)) \<and>
         (\<forall>i j. map radio_name (radio_scale (comparison_group (criteria p) i j)) =
                  replicate 17 (compare_name i j) \<and>
                map radio_value (radio_scale (comparison_group (criteria p) i j)) =
                  scale_values \<and>
                map checked (radio_scale (comparison_group (criteria p) i j)) =
                  map (\<lambda>v. v = Fin 1) scale_values \<and>
                map input_type (group_inputs i j) = replicate 17 ''radio'' \<and>
                map radio_name (group_inputs i j) = replicate 17 (compare_name i j) \<and>
                map radio_value (group_inputs i j) = scale_values \<and>
                map checked (group_inputs i j) = map (\<lambda>v. v = Fin 1) scale_values) \<and>
         (n < 2 \<longrightarrow>
            generate p = alert (Alert ''Please add at least 2 criteria'') p \<and>
            pairwiseComparisonsContainer (generate p) = pairwiseComparisonsContainer p \<and>
            content (generate p) = content p) \<and>
         (\<forall>q. criteria q = criteria p \<and>
              (\<forall>(i, j) \<in> set (pairs n).
                 querySelector_checked q (compare_name i j) =
                 querySelector_checked p (compare_name i j)) \<longrightarrow>
              getMatrix q = getMatrix p)"
proof -
  have g: "generate = generatePairwiseComparisons" and m: "getMatrix = getPairwiseMatrix"
    using assms(1)
    by (auto simp: generatePairwiseComparisons_part000_eq getPairwiseMatrix_part000_eq)
  have A1: "2 \<le> n \<longrightarrow>
            length (pairwiseComparisonsContainer (generate p)) = n * (n - 1) div 2 \<and>
            pairwiseComparisonsContainer (generate p) =
              map (\<lambda>(i, j). comparison_group (criteria p) i j) (pairs n) \<and>
            alerts (generate p) = alerts p"
    by (simp add: g assms(2) generatePairwiseComparisons_rows length_pairs)
  have A2: "content (generate p) ContainerElement =
              parse_fragment p (ComparisonsMarkup
                (map (\<lambda>(i, j). comparison_group (criteria p) i j) (pairs n)))" if "2 \<le> n"
    using that unfolding g assms(2) by (rule content_generatePairwiseComparisons)
  have A3: "content (generate p) ContainerElement =
                 \<lparr>fragment_inputs = concat (map (\<lambda>(i, j). group_inputs i j) (pairs n)),
                  fragment_links = []\<rparr>"
    if "2 \<le> n" "conformant p" "list_all tag_free (criteria p)"
    using that unfolding g assms(2) by (rule generated_container_content)
  have A: "2 \<le> n \<longrightarrow>
            length (pairwiseComparisonsContainer (generate p)) = n * (n - 1) div 2 \<and>
            pairwiseComparisonsContainer (generate p) =
              map (\<lambda>(i, j). comparison_group (criteria p) i j) (pairs n) \<and>
            alerts (generate p) = alerts p \<and>
            content (generate p) ContainerElement =
              parse_fragment p (ComparisonsMarkup
                (map (\<lambda>(i, j). comparison_group (criteria p) i j) (pairs n))) \<and>
            (conformant p \<and> list_all tag_free (criteria p) \<longrightarrow>
               content (generate p) ContainerElement =
                 \<lparr>fragment_inputs = concat (map (\<lambda>(i, j). group_inputs i j) (pairs n)),
                  fragment_links = []\<rparr>)"
    using A1 A2 A3 by blast
  have B: "n < 2 \<longrightarrow>
            generate p = alert (Alert ''Please add at least 2 criteria'') p \<and>
            pairwiseComparisonsContainer (generate p) = pairwiseComparisonsContainer p \<and>
            content (generate p) = content p"
    by (simp add: g assms(2) generatePairwiseComparisons_rows alert_def)
  have C: "\<forall>q. criteria q = criteria p \<and>
              (\<forall>(i, j) \<in> set (pairs n).
                 querySelector_checked q (compare_name i j) =
                 querySelector_checked p (compare_name i j)) \<longrightarrow>
              getMatrix q = getMatrix p"
    unfolding m assms(2) by (intro allI impI getPairwiseMatrix_cong) simp_all
  have D: "set (pairs n) = {(i, j). i < j \<and> j < n}" by (rule set_pairs)
  have E: "sorted_wrt (\<lambda>a b. fst a < fst b \<or> fst a = fst b \<and> snd a < snd b) (pairs n)"
    by (rule pairs_lexicographic)
  have F: "distinct (map (\<lambda>(i, j). compare_name i j) (pairs n))"
    by (rule distinct_compare_names)
  have G: "\<forall>i j. map radio_name (radio_scale (comparison_group (criteria p) i j)) =
                  replicate 17 (compare_name i j) \<and>
                map radio_value (radio_scale (comparison_group (criteria p) i j)) =
                  scale_values \<and>
                map checked (radio_scale (comparison_group (criteria p) i j)) =
                  map (\<lambda>v. v = Fin 1) scale_values \<and>
                map input_type (group_inputs i j) = replicate 17 ''radio'' \<and>
                map radio_name (group_inputs i j) = replicate 17 (compare_name i j) \<and>
                map radio_value (group_inputs i j) = scale_values \<and>
                map checked (group_inputs i j) = map (\<lambda>v. v = Fin 1) scale_values"
    by (simp only: radio_names_comparison_group radio_values_comparison_group
        checked_comparison_group group_inputs_facts simp_thms)
  show ?thesis by (intro conjI A B C D E F G)
qed

theorem generated_comparison_groups_witness:
  "length (pairwiseComparisonsContainer (generatePairwiseComparisons fresh_page)) = 36 \<and>
   pairwiseComparisonsContainer (generatePairwiseComparisons fresh_page) =
     map (\<lambda>(i, j). comparison_group criteria_init i j) (pairs 9) \<and>
   content (generatePairwiseComparisons fresh_page) ContainerElement =
     \<lparr>fragment_inputs = concat (map (\<lambda>(i, j). group_inputs i j) (pairs 9)),
      fragment_links = []\<rparr> \<and>
   generatePairwiseComparisons (fresh_page\<lparr>criteria := [''Price'']\<rparr>) =
     alert (Alert ''Please add at least 2 criteria'') (fresh_page\<lparr>criteria := [''Price'']\<rparr>)"
proof -
  have n: "9 = length (criteria fresh_page)" by (simp add: fresh_page_def criteria_init_def)
  have c: "criteria fresh_page = criteria_init" by (simp add: fresh_page_def)
  have imp: "(2 :: nat) \<le> 9 \<longrightarrow>
      length (pairwiseComparisonsContainer (generatePairwiseComparisons fresh_page)) =
        9 * (9 - 1) div 2 \<and>
      pairwiseComparisonsContainer (generatePairwiseComparisons fresh_page) =
        map (\<lambda>(i, j). comparison_group (criteria fresh_page) i j) (pairs 9) \<and>
      alerts (generatePairwiseComparisons fresh_page) = alerts fresh_page \<and>
      content (generatePairwiseComparisons fresh_page) ContainerElement =
        parse_fragment fresh_page (ComparisonsMarkup
          (map (\<lambda>(i, j). comparison_group (criteria fresh_page) i j) (pairs 9))) \<and>
      (conformant fresh_page \<and> list_all tag_free (criteria fresh_page) \<longrightarrow>
         content (generatePairwiseComparisons fresh_page) ContainerElement =
           \<lparr>fragment_inputs = concat (map (\<lambda>(i, j). group_inputs i j) (pairs 9)),
            fragment_links = []\<rparr>)"
    by (rule generated_comparison_groups
      [of generatePairwiseComparisons getPairwiseMatrix 9 fresh_page,
        OF disjI1 n, THEN conjunct1]) simp
  have two: "(2 :: nat) \<le> 9" by simp
  note conj = mp [OF imp two]
  from conjunct1 [OF conj]
  have a1: "length (pairwiseComparisonsContainer (generatePairwiseComparisons fresh_page)) = 36"
    by simp
  from conjunct1 [OF conjunct2 [OF conj]]
  have a2: "pairwiseComparisonsContainer (generatePairwiseComparisons fresh_page) =
     map (\<lambda>(i, j). comparison_group criteria_init i j) (pairs 9)"
    by (simp only: c)
  have plain: "conformant fresh_page \<and> list_all tag_free (criteria fresh_page)"
    using conformant_fresh_page tag_free_criteria_init by (simp add: c)
  note a3 = mp [OF conjunct2 [OF conjunct2 [OF conjunct2 [OF conjunct2 [OF conj]]]] plain]
  have n1: "1 = length (criteria (fresh_page\<lparr>criteria := [''Price'']\<rparr>))" by simp
  note t = generated_comparison_groups
    [of generatePairwiseComparisons getPairwiseMatrix 1 "fresh_page\<lparr>criteria := [''Price'']\<rparr>",
      OF disjI1 n1]
  have "(1 :: nat) < 2 \<longrightarrow>
      generatePairwiseComparisons (fresh_page\<lparr>criteria := [''Price'']\<rparr>) =
        alert (Alert ''Please add at least 2 criteria'') (fresh_page\<lparr>criteria := [''Price'']\<rparr>) \<and>
      pairwiseComparisonsContainer
        (generatePairwiseComparisons (fresh_page\<lparr>criteria := [''Price'']\<rparr>)) =
      pairwiseComparisonsContainer (fresh_page\<lparr>criteria := [''Price'']\<rparr>) \<and>
      content (generatePairwiseComparisons (fresh_page\<lparr>criteria := [''Price'']\<rparr>)) =
      content (fresh_page\<lparr>criteria := [''Price'']\<rparr>)"
    using t by blast
  then have b: "generatePairwiseComparisons (fresh_page\<lparr>criteria := [''Price'']\<rparr>) =
     alert (Alert ''Please add at least 2 criteria'') (fresh_page\<lparr>criteria := [''Price'']\<rparr>)"
    by simp
  show ?thesis using a1 a2 a3 b by (intro conjI)
qed

text \<open>
  C10 does not hold for every criteria list. In \<^verbatim>\<open>part_000\<close>, after the user has added
  the markup of a checkbox as a tenth name, the container holds that checkbox beside
  the radio inputs of the groups, and for the pair \<open>(0, 9)\<close> \<^verbatim>\<open>getPairwiseMatrix\<close> reads
  the checkbox, whose value 49 is none of the scale.
\<close>

theorem markup_name_joins_the_groups:
  "length (criteria checkbox_session) = 10 \<and>
   checkbox_session =
     generatePairwiseComparisons_part000
       (run_part000 [Loaded, Input checkbox_text, Add] fresh_page) \<and>
   checkbox_element \<in> set (fragment_inputs (content checkbox_session ContainerElement)) \<and>
   fragment_inputs (content checkbox_session ContainerElement) \<noteq>
     concat (map (\<lambda>(i, j). group_inputs i j) (pairs 10)) \<and>
   querySelector_checked checkbox_session (compare_name 0 9) = Some checkbox_element \<and>
   input_type checkbox_element \<noteq> ''radio'' \<and>
   radio_value checkbox_element \<notin> set scale_values \<and>
   getPairwiseMatrix_part000 checkbox_session ! 0 ! 9 = Fin 49"
proof -
  have n: "length (criteria checkbox_session) = 10"
    using checkbox_session_facts by (simp add: criteria_init_def)
  have s: "checkbox_session =
     generatePairwiseComparisons_part000
       (run_part000 [Loaded, Input checkbox_text, Add] fresh_page)"
    by (simp add: checkbox_session_def run_part000_def)
  define rows where
    "rows = map (\<lambda>(i, j). comparison_group (criteria_init @ [checkbox_text]) i j) (pairs 10)"
  have c: "content checkbox_session ContainerElement = example_parser (ComparisonsMarkup rows)"
    using checkbox_session_facts by (simp only: rows_def)
  have "(0, 9) \<in> set (pairs 10)" by (simp add: set_pairs)
  then have "comparison_group (criteria_init @ [checkbox_text]) 0 9 \<in> set rows"
    unfolding rows_def by force
  moreover have "compare_label_right (comparison_group (criteria_init @ [checkbox_text]) 0 9) =
      checkbox_text"
    by (simp add: comparison_group_def criteria_init_def)
  ultimately have m: "checkbox_element \<in> set (fragment_inputs (content checkbox_session ContainerElement))"
    unfolding c by (force simp: text_inputs_def)
  have t: "input_type checkbox_element \<noteq> ''radio''" by (simp add: checkbox_element_def)
  have "input_type r = ''radio''"
    if "r \<in> set (concat (map (\<lambda>(i, j). group_inputs i j) (pairs 10)))" for r
    using that by (auto simp: group_inputs_def)
  with m t have d: "fragment_inputs (content checkbox_session ContainerElement) \<noteq>
     concat (map (\<lambda>(i, j). group_inputs i j) (pairs 10))"
    by metis
  have v: "radio_value checkbox_element \<notin> set scale_values"
    by (simp add: checkbox_element_def scale_values_eq)
  have e: "getPairwiseMatrix_part000 checkbox_session ! 0 ! 9 = Fin 49"
    by (simp add: getPairwiseMatrix_part000_eq checkbox_session_entries)
  show ?thesis using n s m d checkbox_session_selected t v e by (intro conjI)
qed

section \<open>Results and the request\<close>

lemma getProp_total: "getProp data k = Inr v \<Longrightarrow> \<exists>v'. getProp data k' = Inr v'"
  by (cases data) simp_all

lemma forEach_criterion_link:
  "forEach_criterion data xs index html = Inr html' \<Longrightarrow>
   NextLink l \<in> set html' \<longleftrightarrow> NextLink l \<in> set html"
  by (induction data xs index html rule: forEach_criterion.induct)
     (auto split: sum.splits if_splits)

lemma forEach_criterion_plain:
  "forEach_criterion data xs index html = Inr html' \<Longrightarrow> list_all text_tag_free xs \<Longrightarrow>
   list_all plain_part html \<Longrightarrow>
   list_all plain_part html' \<and>
   concat (map written_links html') = concat (map written_links html)"
  by (induction data xs index html rule: forEach_criterion.induct)
     (auto split: sum.splits if_splits)

lemma forEach_criterion_completes:
  assumes "list_all is_string cs" and "list_all is_number ws"
    and "getProp data ''weights'' = Inr (JArray ws)"
  shows "\<exists>html'. forEach_criterion data cs index html = Inr html'"
  using assms(1)
proof (induction cs arbitrary: index html)
  case Nil
  then show ?case by simp
next
  case (Cons c cs)
  have w: "coercible (if index < length ws then ws ! index else JUndefined)"
  proof (cases "index < length ws")
    case True
    with assms(2) have "is_number (ws ! index)" by (simp add: list_all_length)
    then show ?thesis using True by (cases "ws ! index") simp_all
  qed simp
  have c: "coercible c" using Cons.prems by (cases c) simp_all
  from Cons.prems have "list_all is_string cs" by simp
  from Cons.IH [OF this] show ?case using w c assms(3) by simp
qed

lemma displayResults_completes:
  assumes "success_response data"
  shows "\<exists>q. displayResults data p = Normal q"
proof -
  from assms obtain csv wsv cr ic where g: "getProp data ''criteria'' = Inr csv"
      "getProp data ''weights'' = Inr wsv" "getProp data ''consistency_ratio'' = Inr cr"
      "getProp data ''is_consistent'' = Inr ic"
    and s: "is_array_of is_string csv" "is_array_of is_number wsv" "is_number cr"
    by (auto simp: success_response_def split: sum.splits)
  from s(1) obtain cs where cs: "csv = JArray cs" "list_all is_string cs"
    by (cases csv) simp_all
  from s(2) obtain ws where ws: "wsv = JArray ws" "list_all is_number ws"
    by (cases wsv) simp_all
  from s(3) obtain x where x: "cr = JNumber x" by (cases cr) simp_all
  have "getProp data ''weights'' = Inr (JArray ws)" by (simp add: g ws)
  from forEach_criterion_completes [OF cs(2) ws(2) this]
  obtain html where "forEach_criterion data cs 0 [Heading ''Criteria Weights''] = Inr html"
    by blast
  then show ?thesis
    by (simp add: displayResults_def try_eval_def forEach_receiver_def toFixed_def Let_def
        g cs ws x)
qed

text \<open>What a call of \<^verbatim>\<open>displayResults\<close> that completes has done.\<close>

lemma displayResults_Normal:
  assumes "displayResults data p = Normal q"
    and "getProp data ''is_consistent'' = Inr (JBool b)"
  shows "\<exists>xs html ratio ws.
     getProp data ''criteria'' = Inr (JArray xs) \<and> getProp data ''weights'' = Inr ws \<and>
     forEach_criterion data xs 0 [Heading ''Criteria Weights''] = Inr html \<and>
     q = (if b
          then (assign_results
                 (html @ [Consistency ''good'' ratio ''Matrix is consistent (CR < 0.1)'',
                          NextLink ''/saw''])
                 (p\<lparr>localStorage := (localStorage p)
                      (''ahp_weights'' \<mapsto> ws, ''ahp_criteria'' \<mapsto> JArray xs)\<rparr>))
               \<lparr>results_display := ''block''\<rparr>
          else (assign_results
                 (html @ [Consistency ''bad'' ratio
                   ''Matrix is inconsistent (CR >= 0.1). Please review your comparisons.''])
                 p)\<lparr>results_display := ''block''\<rparr>)"
proof -
  from getProp_total [OF assms(2)] obtain ws where ws: "getProp data ''weights'' = Inr ws"
    by blast
  from getProp_total [OF assms(2)] obtain cs where cs: "getProp data ''criteria'' = Inr cs"
    by blast
  from getProp_total [OF assms(2)] obtain cr where
    cr: "getProp data ''consistency_ratio'' = Inr cr" by blast
  from assms(1) obtain xs where xs: "cs = JArray xs"
    by (cases cs) (simp_all add: displayResults_def try_eval_def forEach_receiver_def cs)
  from assms(1) obtain html where
    html: "forEach_criterion data xs 0 [Heading ''Criteria Weights''] = Inr html"
    by (cases "forEach_criterion data xs 0 [Heading ''Criteria Weights'']")
       (simp_all add: displayResults_def try_eval_def forEach_receiver_def cs xs)
  from assms(1) obtain ratio where ratio: "cr = JNumber ratio"
    by (cases cr)
       (simp_all add: displayResults_def try_eval_def forEach_receiver_def toFixed_def Let_def
          cs xs html assms(2) cr)
  from assms(1) have "q = (if b
          then (assign_results
                 (html @ [Consistency ''good'' ratio ''Matrix is consistent (CR < 0.1)'',
                          NextLink ''/saw''])
                 (p\<lparr>localStorage := (localStorage p)
                      (''ahp_weights'' \<mapsto> ws, ''ahp_criteria'' \<mapsto> JArray xs)\<rparr>))
               \<lparr>results_display := ''block''\<rparr>
          else (assign_results
                 (html @ [Consistency ''bad'' ratio
                   ''Matrix is inconsistent (CR >= 0.1). Please review your comparisons.''])
                 p)\<lparr>results_display := ''block''\<rparr>)"
    by (cases b)
       (simp_all add: displayResults_def try_eval_def forEach_receiver_def toFixed_def Let_def
          cs xs html assms(2) cr ratio ws)
  then show ?thesis using cs xs ws html by blast
qed

lemma plain_results_literals:
  "tag_free ''Criteria Weights'' \<and> tag_free ''Matrix is consistent (CR < 0.1)'' \<and>
   tag_free ''Matrix is inconsistent (CR >= 0.1). Please review your comparisons.'' \<and>
   quote_free ''good'' \<and> quote_free ''bad'' \<and> quote_free ''/saw''"
  by (simp add: quote_free_def opens_tag_def is_letter_def)

text \<open>
  C4, as the code has it: with a boolean \<^verbatim>\<open>is_consistent\<close>, a call of either file's
  \<^verbatim>\<open>displayResults\<close> that completes has stored the weights and the criteria under
  \<^verbatim>\<open>ahp_weights\<close> and \<^verbatim>\<open>ahp_criteria\<close> and written the Next link into the results markup
  exactly when the field is true, and has left local storage as it was and written no
  Next link when it is false. The results element holds what the browser parses the
  markup to: where the parser conforms and no criterion of the response carries
  markup, it holds the link to \<^verbatim>\<open>/saw\<close> when the field is true and no link when it is
  false. A call that throws has changed nothing; and on a success response of the
  interface the call completes.
\<close>

theorem displayResults_storage:
  assumes "display = displayResults \<or> display = displayResults_part000"
    and "getProp data ''is_consistent'' = Inr (JBool b)"
  shows "(case display data p of
            Normal q \<Rightarrow>
              (\<exists>ws cs. getProp data ''weights'' = Inr ws \<and> getProp data ''criteria'' = Inr cs \<and>
                 localStorage q =
                   (if b then (localStorage p)(''ahp_weights'' \<mapsto> ws, ''ahp_criteria'' \<mapsto> cs)
                    else localStorage p)) \<and>
              ((\<exists>href. NextLink href \<in> set (results_innerHTML q)) \<longleftrightarrow> b) \<and>
              content q ResultsElement = parse_fragment p (ResultsMarkup (results_innerHTML q)) \<and>
              (conformant p \<and>
               (\<forall>xs. getProp data ''criteria'' = Inr (JArray xs) \<longrightarrow> list_all text_tag_free xs) \<longrightarrow>
                 content q ResultsElement =
                   \<lparr>fragment_inputs = [], fragment_links = (if b then [''/saw''] else [])\<rparr>)
          | Thrown e q \<Rightarrow> q = p) \<and>
         (success_response data \<longrightarrow> (\<exists>q. display data p = Normal q))"
proof -
  have d: "display = displayResults" using assms(1) by (simp add: displayResults_part000_eq)
  have "case displayResults data p of
            Normal q \<Rightarrow>
              (\<exists>ws cs. getProp data ''weights'' = Inr ws \<and> getProp data ''criteria'' = Inr cs \<and>
                 localStorage q =
                   (if b then (localStorage p)(''ahp_weights'' \<mapsto> ws, ''ahp_criteria'' \<mapsto> cs)
                    else localStorage p)) \<and>
              ((\<exists>href. NextLink href \<in> set (results_innerHTML q)) \<longleftrightarrow> b) \<and>
              content q ResultsElement = parse_fragment p (ResultsMarkup (results_innerHTML q)) \<and>
              (conformant p \<and>
               (\<forall>xs. getProp data ''criteria'' = Inr (JArray xs) \<longrightarrow> list_all text_tag_free xs) \<longrightarrow>
                 content q ResultsElement =
                   \<lparr>fragment_inputs = [], fragment_links = (if b then [''/saw''] else [])\<rparr>)
          | Thrown e q \<Rightarrow> q = p"
  proof (cases "displayResults data p")
    case (Thrown e q)
    then show ?thesis by (simp add: displayResults_Thrown)
  next
    case (Normal q)
    from displayResults_Normal [OF Normal assms(2)] obtain xs html ratio ws where
      cs: "getProp data ''criteria'' = Inr (JArray xs)" and ws: "getProp data ''weights'' = Inr ws"
      and html: "forEach_criterion data xs 0 [Heading ''Criteria Weights''] = Inr html"
      and q: "q = (if b
          then (assign_results
                 (html @ [Consistency ''good'' ratio ''Matrix is consistent (CR < 0.1)'',
                          NextLink ''/saw''])
                 (p\<lparr>localStorage := (localStorage p)
                      (''ahp_weights'' \<mapsto> ws, ''ahp_criteria'' \<mapsto> JArray xs)\<rparr>))
               \<lparr>results_display := ''block''\<rparr>
          else (assign_results
                 (html @ [Consistency ''bad'' ratio
                   ''Matrix is inconsistent (CR >= 0.1). Please review your comparisons.''])
                 p)\<lparr>results_display := ''block''\<rparr>)"
      by blast
    have A: "\<exists>ws cs. getProp data ''weights'' = Inr ws \<and> getProp data ''criteria'' = Inr cs \<and>
                 localStorage q =
                   (if b then (localStorage p)(''ahp_weights'' \<mapsto> ws, ''ahp_criteria'' \<mapsto> cs)
                    else localStorage p)"
      using cs ws by (simp add: q)
    have "\<not> NextLink href \<in> set html" for href
      using forEach_criterion_link [OF html, of href] by simp
    then have B: "(\<exists>href. NextLink href \<in> set (results_innerHTML q)) \<longleftrightarrow> b"
      by (auto simp: q)
    have C: "content q ResultsElement = parse_fragment p (ResultsMarkup (results_innerHTML q))"
      by (simp add: q)
    have D: "content q ResultsElement =
        \<lparr>fragment_inputs = [], fragment_links = (if b then [''/saw''] else [])\<rparr>"
      if c: "conformant p"
        and x: "\<forall>xs. getProp data ''criteria'' = Inr (JArray xs) \<longrightarrow> list_all text_tag_free xs"
    proof -
      from x cs have "list_all text_tag_free xs" by simp
      from forEach_criterion_plain [OF html this]
      have h: "list_all plain_part html" "concat (map written_links html) = []"
        using plain_results_literals by simp_all
      have "plain_markup (ResultsMarkup (results_innerHTML q))"
        using h(1) plain_results_literals by (simp add: q)
      with c have "parse_fragment p (ResultsMarkup (results_innerHTML q)) =
          written (ResultsMarkup (results_innerHTML q))"
        by (simp add: conformant_def)
      then show ?thesis unfolding C using h(2) by (simp add: q)
    qed
    show ?thesis using Normal A B C D by simp
  qed
  then show ?thesis unfolding d using displayResults_completes by blast
qed

theorem displayResults_storage_witness:
  "(\<exists>q. displayResults
          (JObject [(''success'', JBool True),
                    (''criteria'', JArray [JString ''A'', JString ''B'']),
                    (''weights'', JArray [JNumber (Fin (1 / 2)), JNumber (Fin (1 / 2))]),
                    (''consistency_ratio'', JNumber (Fin 0)),
                    (''is_consistent'', JBool True)]) fresh_page = Normal q \<and>
        localStorage q =
          (localStorage fresh_page)
            (''ahp_weights'' \<mapsto> JArray [JNumber (Fin (1 / 2)), JNumber (Fin (1 / 2))],
             ''ahp_criteria'' \<mapsto> JArray [JString ''A'', JString ''B'']) \<and>
        (\<exists>href. NextLink href \<in> set (results_innerHTML q)) \<and>
        fragment_links (content q ResultsElement) = [''/saw'']) \<and>
   (\<exists>q. displayResults
          (JObject [(''success'', JBool True),
                    (''criteria'', JArray [JString ''A'', JString ''B'']),
                    (''weights'', JArray [JNumber (Fin (1 / 2)), JNumber (Fin (1 / 2))]),
                    (''consistency_ratio'', JNumber (Fin (1 / 4))),
                    (''is_consistent'', JBool False)]) fresh_page = Normal q \<and>
        localStorage q = localStorage fresh_page \<and>
        \<not> (\<exists>href. NextLink href \<in> set (results_innerHTML q)) \<and>
        fragment_links (content q ResultsElement) = [])"
proof -
  define yes where "yes = JObject [(''success'', JBool True),
                    (''criteria'', JArray [JString ''A'', JString ''B'']),
                    (''weights'', JArray [JNumber (Fin (1 / 2)), JNumber (Fin (1 / 2))]),
                    (''consistency_ratio'', JNumber (Fin 0)),
                    (''is_consistent'', JBool True)]"
  define no where "no = JObject [(''success'', JBool True),
                    (''criteria'', JArray [JString ''A'', JString ''B'']),
                    (''weights'', JArray [JNumber (Fin (1 / 2)), JNumber (Fin (1 / 2))]),
                    (''consistency_ratio'', JNumber (Fin (1 / 4))),
                    (''is_consistent'', JBool False)]"
  have y: "getProp yes ''is_consistent'' = Inr (JBool True)" "success_response yes"
    "getProp yes ''weights'' = Inr (JArray [JNumber (Fin (1 / 2)), JNumber (Fin (1 / 2))])"
    "getProp yes ''criteria'' = Inr (JArray [JString ''A'', JString ''B''])"
    by (simp_all add: yes_def success_response_def)
  have n: "getProp no ''is_consistent'' = Inr (JBool False)" "success_response no"
    "getProp no ''criteria'' = Inr (JArray [JString ''A'', JString ''B''])"
    by (simp_all add: no_def success_response_def)
  have py: "conformant fresh_page \<and>
      (\<forall>xs. getProp yes ''criteria'' = Inr (JArray xs) \<longrightarrow> list_all text_tag_free xs)"
    using conformant_fresh_page by (auto simp: y(4))
  have pn: "conformant fresh_page \<and>
      (\<forall>xs. getProp no ''criteria'' = Inr (JArray xs) \<longrightarrow> list_all text_tag_free xs)"
    using conformant_fresh_page by (auto simp: n(3))
  note ty = displayResults_storage [of displayResults yes True fresh_page, OF disjI1 [OF refl] y(1)]
  note tn = displayResults_storage [of displayResults no False fresh_page, OF disjI1 [OF refl] n(1)]
  from ty y(2) obtain q where q: "displayResults yes fresh_page = Normal q" by blast
  from tn n(2) obtain r where r: "displayResults no fresh_page = Normal r" by blast
  from ty have Y: "localStorage q =
          (localStorage fresh_page)
            (''ahp_weights'' \<mapsto> JArray [JNumber (Fin (1 / 2)), JNumber (Fin (1 / 2))],
             ''ahp_criteria'' \<mapsto> JArray [JString ''A'', JString ''B''])"
      "\<exists>href. NextLink href \<in> set (results_innerHTML q)"
    by (simp_all add: q y)
  have "case displayResults yes fresh_page of
      Normal q \<Rightarrow>
        (\<exists>ws cs. getProp yes ''weights'' = Inr ws \<and> getProp yes ''criteria'' = Inr cs \<and>
           localStorage q =
             (if True then (localStorage fresh_page)(''ahp_weights'' \<mapsto> ws, ''ahp_criteria'' \<mapsto> cs)
              else localStorage fresh_page)) \<and>
        ((\<exists>href. NextLink href \<in> set (results_innerHTML q)) \<longleftrightarrow> True) \<and>
        content q ResultsElement =
          parse_fragment fresh_page (ResultsMarkup (results_innerHTML q)) \<and>
        (conformant fresh_page \<and>
         (\<forall>xs. getProp yes ''criteria'' = Inr (JArray xs) \<longrightarrow> list_all text_tag_free xs) \<longrightarrow>
           content q ResultsElement =
             \<lparr>fragment_inputs = [], fragment_links = (if True then [''/saw''] else [])\<rparr>)
    | Thrown e q \<Rightarrow> q = fresh_page"
    by (rule ty [THEN conjunct1])
  then have "conformant fresh_page \<and>
      (\<forall>xs. getProp yes ''criteria'' = Inr (JArray xs) \<longrightarrow> list_all text_tag_free xs) \<longrightarrow>
      content q ResultsElement =
        \<lparr>fragment_inputs = [], fragment_links = (if True then [''/saw''] else [])\<rparr>"
    unfolding q completion.case by (rule conjunct2 [OF conjunct2 [OF conjunct2]])
  from mp [OF this py] have "content q ResultsElement =
      \<lparr>fragment_inputs = [], fragment_links = (if True then [''/saw''] else [])\<rparr>" .
  then have Y3: "fragment_links (content q ResultsElement) = [''/saw'']" by simp
  from tn have N: "localStorage r = localStorage fresh_page"
      "\<not> (\<exists>href. NextLink href \<in> set (results_innerHTML r))"
    by (simp_all add: r)
  have "case displayResults no fresh_page of
      Normal q \<Rightarrow>
        (\<exists>ws cs. getProp no ''weights'' = Inr ws \<and> getProp no ''criteria'' = Inr cs \<and>
           localStorage q =
             (if False then (localStorage fresh_page)(''ahp_weights'' \<mapsto> ws, ''ahp_criteria'' \<mapsto> cs)
              else localStorage fresh_page)) \<and>
        ((\<exists>href. NextLink href \<in> set (results_innerHTML q)) \<longleftrightarrow> False) \<and>
        content q ResultsElement =
          parse_fragment fresh_page (ResultsMarkup (results_innerHTML q)) \<and>
        (conformant fresh_page \<and>
         (\<forall>xs. getProp no ''criteria'' = Inr (JArray xs) \<longrightarrow> list_all text_tag_free xs) \<longrightarrow>
           content q ResultsElement =
             \<lparr>fragment_inputs = [], fragment_links = (if False then [''/saw''] else [])\<rparr>)
    | Thrown e q \<Rightarrow> q = fresh_page"
    by (rule tn [THEN conjunct1])
  then have "conformant fresh_page \<and>
      (\<forall>xs. getProp no ''criteria'' = Inr (JArray xs) \<longrightarrow> list_all text_tag_free xs) \<longrightarrow>
      content r ResultsElement =
        \<lparr>fragment_inputs = [], fragment_links = (if False then [''/saw''] else [])\<rparr>"
    unfolding r completion.case by (rule conjunct2 [OF conjunct2 [OF conjunct2]])
  from mp [OF this pn] have "content r ResultsElement =
      \<lparr>fragment_inputs = [], fragment_links = (if False then [''/saw''] else [])\<rparr>" .
  then have N3: "fragment_links (content r ResultsElement) = []" by simp
  show ?thesis unfolding yes_def [symmetric] no_def [symmetric] using q r Y Y3 N N3 by blast
qed

text \<open>
  C4 does not hold for every response. For one whose \<^verbatim>\<open>is_consistent\<close> is false and whose
  criterion is the markup of a link to \<^verbatim>\<open>/saw\<close>, the call stores nothing and writes no
  Next link of its own, and the results hold a link to \<^verbatim>\<open>/saw\<close>.
\<close>

theorem criterion_markup_renders_link:
  "\<exists>q. displayResults
          (JObject [(''success'', JBool True),
                    (''criteria'', JArray [JString link_text]),
                    (''weights'', JArray [JNumber (Fin 1)]),
                    (''consistency_ratio'', JNumber (Fin (1 / 4))),
                    (''is_consistent'', JBool False)]) fresh_page = Normal q \<and>
       localStorage q = localStorage fresh_page \<and>
       \<not> (\<exists>href. NextLink href \<in> set (results_innerHTML q)) \<and>
       fragment_links (content q ResultsElement) = [''/saw'']"
proof -
  have p: "parse_fragment fresh_page = example_parser" by (simp add: fresh_page_def)
  have l: "text_links link_text = [''/saw'']" by (simp add: text_links_def)
  have o: "text_links ''Criteria Weights'' = [] \<and>
      text_links ''Matrix is inconsistent (CR >= 0.1). Please review your comparisons.'' = []"
    by (simp add: text_links_def link_text_def)
  show ?thesis
    by (simp add: displayResults_def try_eval_def forEach_receiver_def toFixed_def Let_def p l o)
qed

text \<open>
  C5: when the response parses to \<open>data\<close> and \<^verbatim>\<open>data.success\<close> can be read, either
  file's \<^verbatim>\<open>calculateWeights\<close> branches on it: on \<^verbatim>\<open>true\<close> it assigns \<^verbatim>\<open>data.weights\<close>
  to \<^verbatim>\<open>weights\<close> and calls \<^verbatim>\<open>displayResults\<close> (inside the \<^verbatim>\<open>try\<close>); on \<^verbatim>\<open>false\<close> it
  leaves \<^verbatim>\<open>weights\<close> as it was and alerts \<^verbatim>\<open>'Error: ' + data.error\<close> (for an error that
  converts to text, as every string does); on any other value it alerts
  \<^verbatim>\<open>'Unexpected response format'\<close> and leaves \<^verbatim>\<open>weights\<close> as it was.
\<close>

theorem calculateWeights_branches:
  assumes "calc = calculateWeights \<and> display = displayResults \<or>
           calc = calculateWeights_part000 \<and> display = displayResults_part000"
    and "getProp data ''success'' = Inr success"
    and "p1 = p\<lparr>posted := posted p @
           [\<lparr>req_criteria = criteria p, req_pairwise_matrix = getPairwiseMatrix p\<rparr>]\<rparr>"
  shows "(success = JBool True \<longrightarrow>
            (\<exists>ws. getProp data ''weights'' = Inr ws \<and>
               calc (JsonIs data) p =
                 try_catch (display data (p1\<lparr>weights := ws\<rparr>))
                   (\<lambda>error q. Normal (alert (AlertError ''Error calculating weights: '' error) q)) \<and>
               weights (page_of (calc (JsonIs data) p)) = ws)) \<and>
         (success = JBool False \<longrightarrow>
            weights (page_of (calc (JsonIs data) p)) = weights p \<and>
            (\<exists>err. getProp data ''error'' = Inr err \<and>
               (coercible err \<longrightarrow>
                  calc (JsonIs data) p = Normal (alert (AlertValue ''Error: '' err) p1)))) \<and>
         (success \<noteq> JBool True \<and> success \<noteq> JBool False \<longrightarrow>
            weights (page_of (calc (JsonIs data) p)) = weights p \<and>
            calc (JsonIs data) p = Normal (alert (Alert ''Unexpected response format'') p1))"
proof -
  have c: "calc = calculateWeights" and d: "display = displayResults"
    using assms(1) by (auto simp: calculateWeights_part000_eq displayResults_part000_eq)
  from getProp_total [OF assms(2)] obtain ws where ws: "getProp data ''weights'' = Inr ws"
    by blast
  from getProp_total [OF assms(2)] obtain err where err: "getProp data ''error'' = Inr err"
    by blast
  have A: "calculateWeights (JsonIs data) p =
      try_catch (displayResults data (p1\<lparr>weights := ws\<rparr>))
        (\<lambda>error q. Normal (alert (AlertError ''Error calculating weights: '' error) q))"
    if "success = JBool True"
    using that assms(2) ws
    by (simp add: calculateWeights_def calculateWeights_try_def try_eval_def Let_def
        assms(3) [symmetric])
  have A': "weights (page_of (calculateWeights (JsonIs data) p)) = ws" if "success = JBool True"
    using displayResults_untouched [of data "p1\<lparr>weights := ws\<rparr>"]
    by (cases "displayResults data (p1\<lparr>weights := ws\<rparr>)")
       (simp_all add: A [OF that] try_catch_def alert_def)
  have B: "calculateWeights (JsonIs data) p = Normal (alert (AlertValue ''Error: '' err) p1)"
    if "success = JBool False" "coercible err"
    using that assms(2) err
    by (simp add: calculateWeights_def calculateWeights_try_def try_eval_def try_catch_def
        plus_text_def Let_def assms(3) [symmetric])
  have B': "weights (page_of (calculateWeights (JsonIs data) p)) = weights p"
    if "success = JBool False"
    using that assms(2) err
    by (simp add: calculateWeights_def calculateWeights_try_def try_eval_def try_catch_def
        plus_text_def Let_def alert_def)
  have C: "calculateWeights (JsonIs data) p =
      Normal (alert (Alert ''Unexpected response format'') p1)"
    if "success \<noteq> JBool True" "success \<noteq> JBool False"
    using that assms(2)
    by (simp add: calculateWeights_def calculateWeights_try_def try_eval_def try_catch_def
        Let_def assms(3) [symmetric])
  have C': "weights (page_of (calculateWeights (JsonIs data) p)) = weights p"
    if "success \<noteq> JBool True" "success \<noteq> JBool False"
    by (simp add: C [OF that] alert_def assms(3))
  show ?thesis unfolding c d using A A' B B' C C' ws err by blast
qed

theorem calculateWeights_branches_witness:
  "weights (page_of (calculateWeights
      (JsonIs (JObject [(''success'', JBool True), (''weights'', JArray [JNumber (Fin 1)])]))
      fresh_page)) = JArray [JNumber (Fin 1)] \<and>
   calculateWeights
      (JsonIs (JObject [(''success'', JBool False), (''error'', JString ''Matrix must be square'')]))
      fresh_page =
     Normal (alert (AlertValue ''Error: '' (JString ''Matrix must be square''))
       (fresh_page\<lparr>posted := posted fresh_page @
           [\<lparr>req_criteria = criteria fresh_page,
             req_pairwise_matrix = getPairwiseMatrix fresh_page\<rparr>]\<rparr>)) \<and>
   calculateWeights (JsonIs (JObject [(''success'', JString ''yes'')])) fresh_page =
     Normal (alert (Alert ''Unexpected response format'')
       (fresh_page\<lparr>posted := posted fresh_page @
           [\<lparr>req_criteria = criteria fresh_page,
             req_pairwise_matrix = getPairwiseMatrix fresh_page\<rparr>]\<rparr>))"
proof -
  have a: "getProp (JObject [(''success'', JBool True), (''weights'', JArray [JNumber (Fin 1)])])
      ''success'' = Inr (JBool True)" by simp
  have b: "getProp (JObject [(''success'', JBool False),
      (''error'', JString ''Matrix must be square'')]) ''success'' = Inr (JBool False)" by simp
  have c: "getProp (JObject [(''success'', JString ''yes'')]) ''success'' = Inr (JString ''yes'')"
    by simp
  from calculateWeights_branches [OF disjI1 [OF conjI [OF refl refl]] a refl, of fresh_page]
  obtain ws where w:
    "getProp (JObject [(''success'', JBool True), (''weights'', JArray [JNumber (Fin 1)])])
       ''weights'' = Inr ws"
    "weights (page_of (calculateWeights
      (JsonIs (JObject [(''success'', JBool True), (''weights'', JArray [JNumber (Fin 1)])]))
      fresh_page)) = ws"
    by blast
  from w(1) have "ws = JArray [JNumber (Fin 1)]" by simp
  with w(2) have A: "weights (page_of (calculateWeights
      (JsonIs (JObject [(''success'', JBool True), (''weights'', JArray [JNumber (Fin 1)])]))
      fresh_page)) = JArray [JNumber (Fin 1)]"
    by (simp only:)
  from calculateWeights_branches [OF disjI1 [OF conjI [OF refl refl]] b refl, of fresh_page]
  have B: "calculateWeights
      (JsonIs (JObject [(''success'', JBool False), (''error'', JString ''Matrix must be square'')]))
      fresh_page =
     Normal (alert (AlertValue ''Error: '' (JString ''Matrix must be square''))
       (fresh_page\<lparr>posted := posted fresh_page @
           [\<lparr>req_criteria = criteria fresh_page,
             req_pairwise_matrix = getPairwiseMatrix fresh_page\<rparr>]\<rparr>))"
    by simp
  from calculateWeights_branches [OF disjI1 [OF conjI [OF refl refl]] c refl, of fresh_page]
  have C: "calculateWeights (JsonIs (JObject [(''success'', JString ''yes'')])) fresh_page =
     Normal (alert (Alert ''Unexpected response format'')
       (fresh_page\<lparr>posted := posted fresh_page @
           [\<lparr>req_criteria = criteria fresh_page,
             req_pairwise_matrix = getPairwiseMatrix fresh_page\<rparr>]\<rparr>))"
    by simp
  show ?thesis by (intro conjI A B C)
qed

text \<open>
  C6: either file's \<^verbatim>\<open>calculateWeights\<close> always completes normally. Whatever the
  \<^verbatim>\<open>try\<close> block throws is reported by the alert of the \<^verbatim>\<open>catch\<close> clause, in the state
  the throw left: a rejected \<^verbatim>\<open>fetch\<close>, a rejected \<^verbatim>\<open>response.json()\<close>, and an exception
  of \<^verbatim>\<open>displayResults\<close> while rendering. The call of \<^verbatim>\<open>getPairwiseMatrix\<close> before the
  \<^verbatim>\<open>try\<close> cannot throw.
\<close>

theorem calculateWeights_catches:
  assumes "calc = calculateWeights \<and> try_block = calculateWeights_try \<and>
             display = displayResults \<or>
           calc = calculateWeights_part000 \<and> try_block = calculateWeights_try_part000 \<and>
             display = displayResults_part000"
    and "p1 = p\<lparr>posted := posted p @
           [\<lparr>req_criteria = criteria p, req_pairwise_matrix = getPairwiseMatrix p\<rparr>]\<rparr>"
  shows "(\<exists>q. calc response p = Normal q) \<and>
         (\<forall>e q. try_block response p1 = Thrown e q \<longrightarrow>
            calc response p = Normal (alert (AlertError ''Error calculating weights: '' e) q)) \<and>
         calc (FetchRejects e) p =
           Normal (alert (AlertError ''Error calculating weights: '' e) p1) \<and>
         calc (JsonRejects e) p =
           Normal (alert (AlertError ''Error calculating weights: '' e) p1) \<and>
         (\<forall>data ws e' q.
            getProp data ''success'' = Inr (JBool True) \<and> getProp data ''weights'' = Inr ws \<and>
            display data (p1\<lparr>weights := ws\<rparr>) = Thrown e' q \<longrightarrow>
            calc (JsonIs data) p =
              Normal (alert (AlertError ''Error calculating weights: '' e') (p1\<lparr>weights := ws\<rparr>)))"
proof -
  have c: "calc = calculateWeights" and t: "try_block = calculateWeights_try"
    and d: "display = displayResults"
    using assms(1)
    by (auto simp: calculateWeights_part000_eq calculateWeights_try_part000_eq
        displayResults_part000_eq)
  have N: "calculateWeights r p =
     Normal (case calculateWeights_try r p1 of
               Normal q \<Rightarrow> q
             | Thrown e q \<Rightarrow> alert (AlertError ''Error calculating weights: '' e) q)" for r
    unfolding assms(2) by (rule calculateWeights_Normal)
  have A: "\<exists>q. calculateWeights response p = Normal q" by (simp add: N)
  have B: "\<forall>e q. calculateWeights_try response p1 = Thrown e q \<longrightarrow>
            calculateWeights response p =
              Normal (alert (AlertError ''Error calculating weights: '' e) q)"
    by (simp add: N)
  have C: "calculateWeights (FetchRejects e) p =
           Normal (alert (AlertError ''Error calculating weights: '' e) p1)"
    by (simp add: N calculateWeights_try_def)
  have D: "calculateWeights (JsonRejects e) p =
           Normal (alert (AlertError ''Error calculating weights: '' e) p1)"
    by (simp add: N calculateWeights_try_def)
  have E: "calculateWeights (JsonIs data) p =
      Normal (alert (AlertError ''Error calculating weights: '' e') (p1\<lparr>weights := ws\<rparr>))"
    if "getProp data ''success'' = Inr (JBool True)" "getProp data ''weights'' = Inr ws"
      "displayResults data (p1\<lparr>weights := ws\<rparr>) = Thrown e' q" for data ws e' q
  proof -
    have "q = p1\<lparr>weights := ws\<rparr>" using that(3) by (rule displayResults_Thrown)
    then show ?thesis using that
      by (simp add: N calculateWeights_try_def try_eval_def)
  qed
  show ?thesis unfolding c t d using A B C D E by blast
qed

theorem calculateWeights_catches_witness:
  "calculateWeights (FetchRejects NetworkError) fresh_page =
     Normal (alert (AlertError ''Error calculating weights: '' NetworkError)
       (fresh_page\<lparr>posted := posted fresh_page @
           [\<lparr>req_criteria = criteria fresh_page,
             req_pairwise_matrix = getPairwiseMatrix fresh_page\<rparr>]\<rparr>)) \<and>
   calculateWeights (JsonIs (JObject [(''success'', JBool True)])) fresh_page =
     Normal (alert (AlertError ''Error calculating weights: '' TypeError)
       (fresh_page\<lparr>posted := posted fresh_page @
           [\<lparr>req_criteria = criteria fresh_page,
             req_pairwise_matrix = getPairwiseMatrix fresh_page\<rparr>],
         weights := JUndefined\<rparr>))"
proof -
  define p1 where "p1 = fresh_page\<lparr>posted := posted fresh_page @
           [\<lparr>req_criteria = criteria fresh_page,
             req_pairwise_matrix = getPairwiseMatrix fresh_page\<rparr>]\<rparr>"
  note t = calculateWeights_catches
    [of calculateWeights calculateWeights_try displayResults p1 fresh_page _ NetworkError,
      OF disjI1 [OF conjI [OF refl conjI [OF refl refl]]] p1_def]
  from t have A: "calculateWeights (FetchRejects NetworkError) fresh_page =
     Normal (alert (AlertError ''Error calculating weights: '' NetworkError) p1)"
    by blast
  have thrown: "displayResults (JObject [(''success'', JBool True)]) (p1\<lparr>weights := JUndefined\<rparr>) =
      Thrown TypeError (p1\<lparr>weights := JUndefined\<rparr>)"
    by (simp add: displayResults_def try_eval_def forEach_receiver_def)
  have g: "getProp (JObject [(''success'', JBool True)]) ''success'' = Inr (JBool True)"
    "getProp (JObject [(''success'', JBool True)]) ''weights'' = Inr JUndefined"
    by simp_all
  from t g thrown
  have B: "calculateWeights (JsonIs (JObject [(''success'', JBool True)])) fresh_page =
     Normal (alert (AlertError ''Error calculating weights: '' TypeError)
       (p1\<lparr>weights := JUndefined\<rparr>))"
    by blast
  show ?thesis using A B unfolding p1_def by simp
qed

text \<open>
  C9: the five functions the two files share are the same functions of the page, the
  document's checked radios and the server's answer: same results, same effects.
\<close>

theorem part000_same_functions:
  "createRadio_part000 = createRadio \<and>
   generatePairwiseComparisons_part000 = generatePairwiseComparisons \<and>
   getPairwiseMatrix_part000 = getPairwiseMatrix \<and>
   calculateWeights_part000 = calculateWeights \<and>
   displayResults_part000 = displayResults"
  by (simp only: createRadio_part000_eq generatePairwiseComparisons_part000_eq
      getPairwiseMatrix_part000_eq calculateWeights_part000_eq displayResults_part000_eq
      simp_thms)

theorem part000_same_functions_witness:
  "getPairwiseMatrix_part000 (generatePairwiseComparisons_part000 fresh_page) =
   getPairwiseMatrix (generatePairwiseComparisons fresh_page) \<and>
   calculateWeights_part000 (FetchRejects NetworkError) fresh_page =
   calculateWeights (FetchRejects NetworkError) fresh_page"
  using part000_same_functions by simp

section \<open>The criteria list\<close>

lemma criteria_updateCriteriaList [simp]: "criteria (updateCriteriaList p) = criteria p"
  by (simp add: updateCriteriaList_def)

lemma criteria_step [simp]: "criteria (step e p) = criteria p"
  by (cases e) (simp_all add: calculateWeights_untouched)

lemma criteria_run: "criteria (run events p) = criteria p"
  unfolding run_def by (induction events arbitrary: p) simp_all

lemma criteria_addCriteria:
  "criteria (addCriteria q) =
     (if trim (newCriteria q) \<noteq> [] \<and> trim (newCriteria q) \<notin> set (criteria q)
      then criteria q @ [trim (newCriteria q)] else criteria q)"
  by (simp add: addCriteria_def updateCriteriaList_def Let_def)

lemma criteria_removeCriteria:
  "criteria (removeCriteria (CriteriaTag t) q) = filter (\<lambda>c. c \<noteq> trim t) (criteria q)"
  by (simp add: updateCriteriaList_def Let_def)

lemma criteria_step_part000:
  "criteria (step_part000 e p) =
     (case e of
        Add \<Rightarrow> criteria (addCriteria p)
      | Remove tag \<Rightarrow> criteria (removeCriteria tag p)
      | _ \<Rightarrow> criteria p)"
proof (cases e)
  case (Shared s)
  then show ?thesis
    by (cases s)
       (simp_all add: generatePairwiseComparisons_part000_eq calculateWeights_part000_eq
          calculateWeights_untouched)
qed (simp_all add: updateCriteriaList_def)

lemma names_kept_step_part000:
  assumes "distinct (criteria p) \<and> [] \<notin> set (criteria p)"
  shows "distinct (criteria (step_part000 e p)) \<and> [] \<notin> set (criteria (step_part000 e p))"
proof (cases e)
  case (Remove tag)
  then show ?thesis using assms
    by (cases tag) (simp add: criteria_step_part000 updateCriteriaList_def Let_def)
qed (use assms in \<open>auto simp: criteria_step_part000 criteria_addCriteria\<close>)

lemma names_kept_run_part000:
  "distinct (criteria p) \<and> [] \<notin> set (criteria p) \<Longrightarrow>
   distinct (criteria (run_part000 events p)) \<and> [] \<notin> set (criteria (run_part000 events p))"
  unfolding run_part000_def
proof (induction events arbitrary: p)
  case Nil
  then show ?case by simp
next
  case (Cons e events)
  from names_kept_step_part000 [OF Cons.prems, of e] show ?case
    by (simp add: Cons.IH)
qed

lemma names_criteria_init: "distinct criteria_init \<and> [] \<notin> set criteria_init"
  by (simp add: criteria_init_def)

lemma last_dropWhile: "dropWhile P xs \<noteq> [] \<Longrightarrow> last (dropWhile P xs) = last xs"
  by (induction xs) (auto split: if_splits)

lemma trim_ends:
  assumes "trim s \<noteq> []"
  shows "\<not> is_white_space (hd (trim s)) \<and> \<not> is_white_space (last (trim s))"
proof -
  define y where "y = dropWhile is_white_space s"
  define z where "z = dropWhile is_white_space (rev y)"
  have t: "trim s = rev z" by (simp add: trim_def y_def z_def)
  have z: "z \<noteq> []" using assms by (simp add: t)
  then have ry: "rev y \<noteq> []" by (auto simp: z_def)
  then have y: "y \<noteq> []" by simp
  have "\<not> is_white_space (hd z)" using z unfolding z_def by (rule hd_dropWhile)
  then have l: "\<not> is_white_space (last (trim s))" using z by (simp add: t last_rev)
  have "last z = last (rev y)" using z unfolding z_def by (rule last_dropWhile)
  then have "hd (trim s) = hd y" using z y by (simp add: t hd_rev last_rev)
  moreover have "\<not> is_white_space (hd y)" using y unfolding y_def by (rule hd_dropWhile)
  ultimately show ?thesis using l by simp
qed

text \<open>
  C7: in \<^verbatim>\<open>part_000\<close>, starting from the nine initial names, whatever the user types,
  adds, removes, generates, checks and calculates, the criteria stay pairwise
  distinct and none is empty. \<^verbatim>\<open>addCriteria\<close> appends the trimmed input (a name that
  neither starts nor ends in white space) when it is not empty and not yet present,
  and changes nothing otherwise; \<^verbatim>\<open>removeCriteria\<close> keeps exactly the criteria other
  than the trimmed text of the tag.
\<close>

theorem criteria_distinct_nonempty:
  assumes "criteria p = criteria_init"
  shows "distinct (criteria (run_part000 events p)) \<and>
         [] \<notin> set (criteria (run_part000 events p)) \<and>
         criteria (addCriteria q) =
           (if trim (newCriteria q) \<noteq> [] \<and> trim (newCriteria q) \<notin> set (criteria q)
            then criteria q @ [trim (newCriteria q)] else criteria q) \<and>
         (trim (newCriteria q) \<noteq> [] \<longrightarrow>
            \<not> is_white_space (hd (trim (newCriteria q))) \<and>
            \<not> is_white_space (last (trim (newCriteria q)))) \<and>
         criteria (removeCriteria (CriteriaTag t) q) =
           filter (\<lambda>c. c \<noteq> trim t) (criteria q) \<and>
         trim t \<notin> set (criteria (removeCriteria (CriteriaTag t) q))"
proof -
  have "distinct (criteria p) \<and> [] \<notin> set (criteria p)"
    unfolding assms by (rule names_criteria_init)
  from names_kept_run_part000 [OF this, of events]
  have A: "distinct (criteria (run_part000 events p))"
    and B: "[] \<notin> set (criteria (run_part000 events p))"
    by simp_all
  have C: "trim (newCriteria q) \<noteq> [] \<longrightarrow>
      \<not> is_white_space (hd (trim (newCriteria q))) \<and>
      \<not> is_white_space (last (trim (newCriteria q)))"
    using trim_ends [of "newCriteria q"] by blast
  have D: "trim t \<notin> set (criteria (removeCriteria (CriteriaTag t) q))"
    by (simp add: updateCriteriaList_def Let_def)
  show ?thesis
    by (intro conjI A B C D criteria_addCriteria criteria_removeCriteria)
qed

theorem criteria_distinct_nonempty_witness:
  "distinct (criteria (run_part000
      [Input ''  Genre '', Add, Input ''Genre'', Add, Input ''   '', Add,
       Remove (CriteriaTag ''Price'')] fresh_page)) \<and>
   [] \<notin> set (criteria (run_part000
      [Input ''  Genre '', Add, Input ''Genre'', Add, Input ''   '', Add,
       Remove (CriteriaTag ''Price'')] fresh_page))"
proof -
  have c: "criteria fresh_page = criteria_init" by (simp add: fresh_page_def)
  from criteria_distinct_nonempty [OF c]
  show ?thesis by blast
qed

lemma run_part000_example:
  "criteria (run_part000
      [Input ''  Genre '', Add, Input ''Genre'', Add, Input ''   '', Add,
       Remove (CriteriaTag ''Price'')] fresh_page) =
   [''Recommendations Total'', ''Release Year'', ''Min RAM'', ''CPU Min'', ''GPU Min'',
    ''Steam Rating Label'', ''Steam Chart Player 30d Avg'', ''Steam Chart Current Player'',
    ''Genre'']"
  by (simp add: run_part000_def addCriteria_def updateCriteriaList_def trim_def
      is_white_space_def fresh_page_def criteria_init_def Let_def)

text \<open>
  C8, as the code has it: both files initialise \<^verbatim>\<open>criteria\<close> with the same nine names.
  In \<^verbatim>\<open>static/js/ahp.js\<close> no function changes the list, so it keeps these names
  and the length 9 through a session; in \<^verbatim>\<open>part_000\<close> the list changes only by
  \<^verbatim>\<open>addCriteria\<close> and \<^verbatim>\<open>removeCriteria\<close>, which do change its length.
\<close>

theorem criteria_fixed_in_ahp_js:
  "length criteria_init = 9 \<and> criteria fresh_page = criteria_init \<and>
   criteria (run events p) = criteria p \<and>
   (criteria p = criteria_init \<longrightarrow> length (criteria (run events p)) = 9) \<and>
   ((\<forall>e \<in> set events'. e \<noteq> Add \<and> (\<forall>tag. e \<noteq> Remove tag)) \<longrightarrow>
      criteria (run_part000 events' p) = criteria p)"
proof -
  have l: "length criteria_init = 9" by (simp add: criteria_init_def)
  have "criteria (run_part000 events' p) = criteria p"
    if "\<forall>e \<in> set events'. e \<noteq> Add \<and> (\<forall>tag. e \<noteq> Remove tag)"
    using that unfolding run_part000_def
  proof (induction events' arbitrary: p)
    case Nil
    then show ?case by simp
  next
    case (Cons e es)
    then have "criteria (step_part000 e p) = criteria p"
      by (cases e) (simp_all add: criteria_step_part000)
    then show ?case using Cons by simp
  qed
  then show ?thesis by (simp add: l criteria_run fresh_page_def)
qed

theorem criteria_fixed_in_ahp_js_witness:
  "length (criteria (run [Generate, Check ''compare_0_1'' (Fin 5),
      Calculate (FetchRejects NetworkError)] fresh_page)) = 9 \<and>
   criteria (run_part000 [Shared Generate, Input ''Genre''] fresh_page) = criteria_init"
proof -
  have c: "criteria fresh_page = criteria_init" by (simp add: fresh_page_def)
  note t = criteria_fixed_in_ahp_js
    [of "[Generate, Check ''compare_0_1'' (Fin 5), Calculate (FetchRejects NetworkError)]"
      fresh_page "[Shared Generate, Input ''Genre'']"]
  from t c have a: "length (criteria (run [Generate, Check ''compare_0_1'' (Fin 5),
      Calculate (FetchRejects NetworkError)] fresh_page)) = 9"
    by blast
  have "\<forall>e \<in> set [Shared Generate, Input ''Genre'']. e \<noteq> Add \<and> (\<forall>tag. e \<noteq> Remove tag)"
    by simp
  with t c have b: "criteria (run_part000 [Shared Generate, Input ''Genre''] fresh_page) =
      criteria_init"
    by (simp only:)
  show ?thesis using a b by (intro conjI)
qed

theorem criteria_length_changes_in_part000:
  "criteria fresh_page = criteria_init \<and>
   length (criteria (run_part000 [Loaded, Input ''Genre'', Add] fresh_page)) = 10 \<and>
   length (criteria (run_part000 [Loaded, Input ''Genre'', Add] fresh_page)) \<noteq> 9"
  by (simp add: run_part000_def addCriteria_def updateCriteriaList_def trim_def
      is_white_space_def fresh_page_def criteria_init_def Let_def)

end
